theory Spec2Isabelle
  imports Main
begin

section \<open>JavaScript values used by the generate command\<close>

text \<open>
  Values thrown or passed as error arguments. \<open>ThrownString\<close> is a thrown primitive
  string (\<open>getConfig\<close> throws one); the others are error objects with their
  \<open>message\<close>. A \<open>SyntaxError\<close> also carries the non-standard \<open>lineNumber\<close>
  property, absent on most engines.
\<close>

datatype js_exn =
    Error string
  | ReferenceError string
  | TypeError string
  | SyntaxError "nat option" string
  | ThrownString string

datatype 'a outcome = Returned 'a | Threw js_exn

text \<open>
  A property that holds a string or is absent. JavaScript's \<open>!x\<close> is true for
  \<open>undefined\<close> and for the empty string, so a property is "set" when it is truthy.
\<close>

definition truthy :: "string option \<Rightarrow> bool" where
  "truthy v = (case v of None \<Rightarrow> False | Some s \<Rightarrow> s \<noteq> [])"

text \<open>\<open>!!e.lineNumber\<close>: absent and 0 are falsy.\<close>

definition truthy_num :: "nat option \<Rightarrow> bool" where
  "truthy_num v = (case v of None \<Rightarrow> False | Some n \<Rightarrow> n \<noteq> 0)"

text \<open>A value interpolated into a template literal.\<close>

definition interpolate :: "string option \<Rightarrow> string" where
  "interpolate v = (case v of None \<Rightarrow> ''undefined'' | Some s \<Rightarrow> s)"

definition squote :: "string \<Rightarrow> string" where
  "squote s = CHR 0x27 # s @ [CHR 0x27]"

definition digit_char :: "nat \<Rightarrow> char" where
  "digit_char d = ''0123456789'' ! d"

function show_nat :: "nat \<Rightarrow> string" where
  "show_nat n = (if n < 10 then [digit_char n] else show_nat (n div 10) @ [digit_char (n mod 10)])"
  by pat_completeness auto
termination
  by (relation "measure id") auto

declare show_nat.simps [simp del]

subsection \<open>String.prototype.toLowerCase and the reserved-name pattern\<close>

definition is_upper :: "char \<Rightarrow> bool" where
  "is_upper c = (of_char CHR ''A'' \<le> (of_char c :: nat) \<and> (of_char c :: nat) \<le> of_char CHR ''Z'')"

definition is_lower :: "char \<Rightarrow> bool" where
  "is_lower c = (of_char CHR ''a'' \<le> (of_char c :: nat) \<and> (of_char c :: nat) \<le> of_char CHR ''z'')"

definition is_digit :: "char \<Rightarrow> bool" where
  "is_digit c = (of_char CHR ''0'' \<le> (of_char c :: nat) \<and> (of_char c :: nat) \<le> of_char CHR ''9'')"

text \<open>An upper-case letter plus 32 is the letter with bit 5 set.\<close>

definition lower_char :: "char \<Rightarrow> char" where
  "lower_char c =
     (if is_upper c
      then (case c of Char b0 b1 b2 b3 b4 b5 b6 b7 \<Rightarrow> Char b0 b1 b2 b3 b4 True b6 b7)
      else c)"

definition toLowerCase :: "string \<Rightarrow> string" where
  "toLowerCase s = map lower_char s"

text \<open>The class \<open>[\w\-]\<close>: letters, digits, underscore, hyphen.\<close>

definition word_or_hyphen :: "char \<Rightarrow> bool" where
  "word_or_hyphen c = (is_upper c \<or> is_lower c \<or> is_digit c \<or> c = CHR ''_'' \<or> c = CHR ''-'')"

text \<open>
  \<open>cls+\<close> followed by the rest of the pattern \<open>k\<close>, matched from the head of the
  string the way a backtracking matcher does: one character of the class, then either
  more of the class or the rest of the pattern.
\<close>

fun match_plus :: "(char \<Rightarrow> bool) \<Rightarrow> (string \<Rightarrow> bool) \<Rightarrow> string \<Rightarrow> bool" where
  "match_plus cls k [] = False"
| "match_plus cls k (c # cs) = (cls c \<and> (match_plus cls k cs \<or> k cs))"

text \<open>A literal under the \<open>i\<close> flag, followed by \<open>$\<close>: the remaining input is the
  literal up to letter case.\<close>

definition match_literal_ci_end :: "string \<Rightarrow> string \<Rightarrow> bool" where
  "match_literal_ci_end lit s = (toLowerCase s = toLowerCase lit)"

text \<open>\<open>/^[\w\-]+-language$/i\<close>\<close>

definition language_pattern :: "string \<Rightarrow> bool" where
  "language_pattern s = match_plus word_or_hyphen (match_literal_ci_end ''-language'') s"

section \<open>Profiles and configurations\<close>

text \<open>The \<open>debug\<close> object; its one recognised property is \<open>definition\<close>, a path.\<close>

record debug_obj =
  definition_path :: "string option"

text \<open>\<open>transforms\<close> and \<open>options\<close> are passed through and never read here.\<close>

type_synonym js_obj = "(string \<times> string) list"

record profile =
  "file" :: "string option"
  url :: "string option"
  "output" :: "string option"
  generator :: "string option"
  skip :: bool
  debug :: "debug_obj option"
  transforms :: "js_obj option"
  options :: "js_obj option"

text \<open>A configuration in the order in which \<open>for ... in\<close> visits its keys.\<close>

type_synonym config = "(string \<times> profile) list"

section \<open>verifyProfile\<close>

text \<open>
  \<open>function verifyProfile(profile)\<close> has the single parameter \<open>profile\<close>, and the
  module declares no \<open>profileKey\<close>: the only binding of that name is the loop variable of
  \<open>processInputs\<close>, which is not in scope here. Each message is a template literal that
  starts with \<open>${profileKey}\<close>, so evaluating it raises a \<open>ReferenceError\<close> before
  \<open>new Error\<close> is reached.
\<close>

definition profileKey_in_verifyProfile :: "string option" where
  "profileKey_in_verifyProfile = None"

definition new_Error :: "string option \<Rightarrow> (string \<Rightarrow> string) \<Rightarrow> js_exn" where
  "new_Error binding template =
     (case binding of
        None \<Rightarrow> ReferenceError ''profileKey is not defined''
      | Some profileKey \<Rightarrow> Error (template profileKey))"

definition empty_debug :: debug_obj where
  "empty_debug = \<lparr>definition_path = None\<rparr>"

definition default_debug :: "profile \<Rightarrow> profile" where
  "default_debug p = (if debug p = None then p\<lparr>debug := Some empty_debug\<rparr> else p)"

definition default_transforms :: "profile \<Rightarrow> profile" where
  "default_transforms p = (if transforms p = None then p\<lparr>transforms := Some []\<rparr> else p)"

definition default_options :: "profile \<Rightarrow> profile" where
  "default_options p = (if options p = None then p\<lparr>options := Some []\<rparr> else p)"

text \<open>
  The result is what the call did (returned or threw) and the profile object after it.
  Past the third check the generator is a non-empty string, which \<open>interpolate\<close>
  hands over as it is.
\<close>

definition verifyProfile :: "profile \<Rightarrow> unit outcome \<times> profile" where
  "verifyProfile p =
     (if \<not> truthy (file p) \<and> \<not> truthy (url p) then
        (Threw (new_Error profileKey_in_verifyProfile
           (\<lambda>profileKey. ''['' @ profileKey @ ''] Must specify a file or url in the configuration.'')), p)
      else if \<not> truthy (output p) then
        (Threw (new_Error profileKey_in_verifyProfile
           (\<lambda>profileKey. ''['' @ profileKey @ ''] Must specify an output file path in the configuration.'')), p)
      else if \<not> truthy (generator p) then
        (Threw (new_Error profileKey_in_verifyProfile
           (\<lambda>profileKey. ''['' @ profileKey @ ''] Must specify a generator in the configuration.'')), p)
      else if toLowerCase (interpolate (generator p)) = ''core'' then
        (Threw (new_Error profileKey_in_verifyProfile
           (\<lambda>profileKey. ''['' @ profileKey @ ''] Invalid generator '' @ interpolate (generator p)
              @ ''. This name is reserved.'')), p)
      else if language_pattern (interpolate (generator p)) then
        (Threw (new_Error profileKey_in_verifyProfile
           (\<lambda>profileKey. ''['' @ profileKey @ ''] Invalid generator '' @ interpolate (generator p)
              @ ''. The -language suffix is reserved for language helper packages.'')), p)
      else
        (Returned (), default_options (default_transforms (default_debug p))))"

section \<open>The environment of the command\<close>

text \<open>
  A raw document handed to \<open>handleSwagger\<close>: \<open>fs.readFile\<close> with the \<open>utf8\<close>
  encoding yields a string; the HTTP client yields a string or an already parsed value.
\<close>

datatype 'j raw_doc = Text string | Structured 'j

text \<open>
  A generator package. Both functions receive the profile object and may change it, so
  each returns the profile as it is after the call.
\<close>

record 'd generator_pkg =
  validateProfile :: "(profile \<Rightarrow> unit outcome \<times> profile) option"
  generate :: "'d \<Rightarrow> profile \<Rightarrow> string outcome \<times> profile"

text \<open>
  What the module takes from Node and from its dependencies: \<open>process.cwd()\<close>,
  \<open>os.EOL\<close>, \<open>path.resolve\<close>, \<open>JSON.parse\<close> and \<open>JSON.stringify(_, null, 4)\<close>,
  \<open>new swagenCore.Parser(swagger).parse()\<close>, \<open>require\<close> of a generator package and
  of a configuration file, \<open>fs.existsSync\<close>, and the answers that \<open>fs.readFile\<close> and
  \<open>needle.get\<close> pass to their callbacks (\<open>Inl\<close> the error argument). The \<open>cli\<close>
  logging calls and \<open>fs.writeFileSync\<close> are recorded as events and taken to return.
\<close>

record ('j, 'd) platform =
  currentDir :: string
  EOL :: string
  path_resolve :: "string \<Rightarrow> string \<Rightarrow> string"
  JSON_parse :: "string \<Rightarrow> 'j outcome"
  JSON_stringify :: "'d \<Rightarrow> string"
  Parser_parse :: "'j \<Rightarrow> 'd outcome"
  require :: "string \<Rightarrow> 'd generator_pkg outcome"
  existsSync :: "string \<Rightarrow> bool"
  require_config :: "string \<Rightarrow> config outcome"
  readFile :: "string \<Rightarrow> js_exn + string"
  needle_get :: "string \<Rightarrow> js_exn + 'j raw_doc"

text \<open>
  The observable actions, in program order. \<open>FsReadFile\<close> and \<open>NeedleGet\<close> are the
  requests; each carries the profile and key its callback closes over.
\<close>

datatype ('j, 'd) event =
    CliInfo string
  | CliError string
  | CliErrorVal js_exn
  | CliDebug string
  | FsReadFile string profile string
  | NeedleGet string profile string
  | FsWriteFileSync string string
  | NewParser 'j
  | Require string
  | ValidateProfileCall profile
  | GenerateCall 'd profile
  | ConsoleLog js_exn
  | HelpCommand

text \<open>\<open>Array.prototype.join\<close> on an array of strings.\<close>

fun join :: "string \<Rightarrow> string list \<Rightarrow> string" where
  "join sep [] = []"
| "join sep [x] = x"
| "join sep (x # y # ys) = x @ sep @ join sep (y # ys)"

section \<open>getConfig\<close>

definition configScriptFileName :: string where
  "configScriptFileName = ''swagen.config.js''"

definition configJsonFileName :: string where
  "configJsonFileName = ''swagen.config.json''"

definition errorMessage :: "('j, 'd) platform \<Rightarrow> string" where
  "errorMessage plat = join (EOL plat)
     [''Specify a '' @ configScriptFileName @ '' or '' @ configJsonFileName
        @ '' file to configure the swagen tool.'',
      [],
      ''To create a configuration file in the current directory, use the following command:'',
      [],
      ''    swagen init'',
      [],
      ''This will ask you a series of questions and generate a configuration file based on your answers.'']"

definition getConfig :: "('j, 'd) platform \<Rightarrow> config outcome" where
  "getConfig plat =
     (let configScript = path_resolve plat (currentDir plat) configScriptFileName in
      if existsSync plat configScript then require_config plat configScript
      else
        let configJson = path_resolve plat (currentDir plat) configJsonFileName in
        if existsSync plat configJson then require_config plat configJson
        else Threw (ThrownString (errorMessage plat)))"

section \<open>handleSwagger\<close>

text \<open>Lines 131 to 146: a string is parsed; the \<open>catch\<close> block logs and returns.\<close>

definition parse_if_string :: "('j, 'd) platform \<Rightarrow> 'j raw_doc \<Rightarrow> 'j outcome" where
  "parse_if_string plat swagger =
     (case swagger of Text s \<Rightarrow> JSON_parse plat s | Structured j \<Rightarrow> Returned j)"

definition catch_parse :: "js_exn \<Rightarrow> string \<Rightarrow> ('j, 'd) event list" where
  "catch_parse e profileKey =
     CliError (''Invalid swagger source for profile '' @ squote profileKey @ ''.'') #
     (case e of
        SyntaxError lineNumber message \<Rightarrow>
          (if truthy_num lineNumber
           then [CliError (''At line number '' @ show_nat (the lineNumber) @ ''.'')] else []) @
          (if message \<noteq> [] then [CliError message] else [])
      | _ \<Rightarrow> [])"

text \<open>Lines 150 to 154: the optional dump of the definition.\<close>

definition debug_dump :: "('j, 'd) platform \<Rightarrow> 'd \<Rightarrow> debug_obj \<Rightarrow> string \<Rightarrow> ('j, 'd) event list" where
  "debug_dump plat defn d profileKey =
     (if truthy (definition_path d) then
        [FsWriteFileSync (path_resolve plat (currentDir plat) (interpolate (definition_path d)))
           (JSON_stringify plat defn),
         CliDebug (''['' @ profileKey @ ''] Definition file written to ''
           @ squote (interpolate (definition_path d)) @ ''.'')]
      else [])"

text \<open>Lines 156 to 161: which module is required. \<open>_.startsWith\<close> reads an absent
  string as empty.\<close>

definition startsWith_dot :: "string option \<Rightarrow> bool" where
  "startsWith_dot g = (case g of Some (c # _) \<Rightarrow> c = CHR ''.'' | _ \<Rightarrow> False)"

definition generator_module :: "('j, 'd) platform \<Rightarrow> profile \<Rightarrow> string" where
  "generator_module plat p =
     (if startsWith_dot (generator p)
      then path_resolve plat (currentDir plat) (interpolate (generator p))
      else ''swagen-'' @ interpolate (generator p))"

text \<open>Lines 162 to 164: the optional hook. The result is the events, what the hook did
  and the profile after it.\<close>

definition call_validateProfile ::
  "'d generator_pkg \<Rightarrow> profile \<Rightarrow> ('j, 'd) event list \<times> unit outcome \<times> profile" where
  "call_validateProfile generatorPkg p =
     (case validateProfile generatorPkg of
        None \<Rightarrow> ([], Returned (), p)
      | Some hook \<Rightarrow> (case hook p of (r, p') \<Rightarrow> ([ValidateProfileCall p], r, p')))"

text \<open>Lines 162 to 169. \<open>path.resolve\<close> rejects an absent argument with a
  \<open>TypeError\<close> (code \<open>ERR_INVALID_ARG_TYPE\<close>).\<close>

definition run_generator ::
  "('j, 'd) platform \<Rightarrow> 'd generator_pkg \<Rightarrow> 'd \<Rightarrow> profile \<Rightarrow> string
     \<Rightarrow> ('j, 'd) event list \<times> unit outcome" where
  "run_generator plat generatorPkg defn p profileKey =
     (case call_validateProfile generatorPkg p of
        (evs, Threw e, p1) \<Rightarrow> (evs, Threw e)
      | (evs, Returned u, p1) \<Rightarrow>
          (case generate generatorPkg defn p1 of
             (Threw e, p2) \<Rightarrow> (evs @ [GenerateCall defn p1], Threw e)
           | (Returned out, p2) \<Rightarrow>
               (case output p2 of
                  None \<Rightarrow> (evs @ [GenerateCall defn p1], Threw (TypeError ''ERR_INVALID_ARG_TYPE''))
                | Some outp \<Rightarrow>
                    (let outputFilePath = path_resolve plat (currentDir plat) outp in
                     (evs @ [GenerateCall defn p1,
                             FsWriteFileSync (path_resolve plat (currentDir plat) outputFilePath) out,
                             CliInfo (''['' @ profileKey @ ''] Code generated at ''
                               @ squote outputFilePath @ ''.'')],
                      Returned ())))))"

definition handleSwagger ::
  "('j, 'd) platform \<Rightarrow> 'j raw_doc \<Rightarrow> profile \<Rightarrow> string \<Rightarrow> ('j, 'd) event list \<times> unit outcome" where
  "handleSwagger plat swagger p profileKey =
     (case parse_if_string plat swagger of
        Threw e \<Rightarrow> (catch_parse e profileKey, Returned ())
      | Returned j \<Rightarrow>
          (case Parser_parse plat j of
             Threw e \<Rightarrow> ([NewParser j], Threw e)
           | Returned defn \<Rightarrow>
               (case debug p of
                  None \<Rightarrow> ([NewParser j], Threw (TypeError ''Cannot read properties of undefined''))
                | Some d \<Rightarrow>
                    (let evs = NewParser j # debug_dump plat defn d profileKey;
                         m = generator_module plat p in
                     case require plat m of
                       Threw e \<Rightarrow> (evs @ [Require m], Threw e)
                     | Returned generatorPkg \<Rightarrow>
                         (case run_generator plat generatorPkg defn p profileKey of
                            (evs', r) \<Rightarrow> (evs @ Require m # evs', r))))))"

section \<open>handleFileSwagger, handleUrlSwagger and their callbacks\<close>

text \<open>The synchronous part: the log line and the request. Both are called only with
  the property set; an absent argument is rejected by \<open>path.resolve\<close> and by the
  HTTP client.\<close>

definition handleFileSwagger ::
  "('j, 'd) platform \<Rightarrow> profile \<Rightarrow> string \<Rightarrow> ('j, 'd) event list \<times> unit outcome" where
  "handleFileSwagger plat p profileKey =
     (case file p of
        None \<Rightarrow> ([], Threw (TypeError ''ERR_INVALID_ARG_TYPE''))
      | Some f \<Rightarrow>
          (let inputFilePath = path_resolve plat (currentDir plat) f in
           ([CliInfo (''['' @ profileKey @ ''] Input swagger file : '' @ inputFilePath),
             FsReadFile inputFilePath p profileKey], Returned ())))"

definition handleUrlSwagger ::
  "('j, 'd) platform \<Rightarrow> profile \<Rightarrow> string \<Rightarrow> ('j, 'd) event list \<times> unit outcome" where
  "handleUrlSwagger plat p profileKey =
     (case url p of
        None \<Rightarrow> ([CliInfo (''['' @ profileKey @ ''] Input swagger URL : '' @ interpolate (url p))],
                 Threw (TypeError ''URL must be a string, not undefined''))
      | Some u \<Rightarrow>
          ([CliInfo (''['' @ profileKey @ ''] Input swagger URL : '' @ u),
            NeedleGet u p profileKey], Returned ()))"

definition readFile_callback ::
  "('j, 'd) platform \<Rightarrow> js_exn + string \<Rightarrow> profile \<Rightarrow> string \<Rightarrow> ('j, 'd) event list \<times> unit outcome" where
  "readFile_callback plat answer p profileKey =
     (case answer of
        Inl error \<Rightarrow>
          ([CliError (''Cannot read swagger file '' @ squote (interpolate (file p)) @ ''.''),
            CliErrorVal error], Returned ())
      | Inr swagger \<Rightarrow> handleSwagger plat (Text swagger) p profileKey)"

definition needle_callback ::
  "('j, 'd) platform \<Rightarrow> js_exn + 'j raw_doc \<Rightarrow> profile \<Rightarrow> string \<Rightarrow> ('j, 'd) event list \<times> unit outcome" where
  "needle_callback plat answer p profileKey =
     (case answer of
        Inl err \<Rightarrow>
          ([CliError (''Cannot read swagger URL '' @ squote (interpolate (url p)) @ ''.''),
            CliErrorVal err], Returned ())
      | Inr body \<Rightarrow> handleSwagger plat body p profileKey)"

section \<open>processInputs and the command\<close>

text \<open>
  The loop over the configuration. The result is the events of the loop, whether it
  returned or threw, and the configuration with its profile objects as the loop left
  them. An exception leaves the loop: there is no \<open>try\<close> inside it.
\<close>

fun processInputs ::
  "('j, 'd) platform \<Rightarrow> config \<Rightarrow> ('j, 'd) event list \<times> unit outcome \<times> config" where
  "processInputs plat [] = ([], Returned (), [])"
| "processInputs plat ((profileKey, p) # rest) =
     (if skip p then
        (case processInputs plat rest of
           (evs, r, rest') \<Rightarrow> (evs, r, (profileKey, p) # rest'))
      else
        (case verifyProfile p of
           (Threw e, p') \<Rightarrow> ([], Threw e, (profileKey, p') # rest)
         | (Returned u, p') \<Rightarrow>
             (case (if truthy (file p') then handleFileSwagger plat p' profileKey
                    else handleUrlSwagger plat p' profileKey) of
                (evs1, Threw e) \<Rightarrow> (evs1, Threw e, (profileKey, p') # rest)
              | (evs1, Returned u') \<Rightarrow>
                  (case processInputs plat rest of
                     (evs, r, rest') \<Rightarrow> (evs1 @ evs, r, (profileKey, p') # rest')))))"

text \<open>The \<open>catch\<close> block of the exported function.\<close>

definition catch_ex :: "js_exn \<Rightarrow> ('j, 'd) event list" where
  "catch_ex ex = (case ex of ThrownString s \<Rightarrow> [CliError s, HelpCommand] | _ \<Rightarrow> [ConsoleLog ex])"

text \<open>The exported function of the command, up to its return: the synchronous events.\<close>

definition command_exports :: "('j, 'd) platform \<Rightarrow> ('j, 'd) event list" where
  "command_exports plat =
     (case getConfig plat of
        Threw ex \<Rightarrow> catch_ex ex
      | Returned config \<Rightarrow>
          (case processInputs plat config of
             (evs, Threw ex, config') \<Rightarrow> evs @ catch_ex ex
           | (evs, Returned u, config') \<Rightarrow> evs))"

text \<open>
  After the command has returned, the event loop runs the callbacks of the requests that
  were issued, one at a time, as the requests complete. \<open>callback\<close> is what the
  callback of one request does: the profile key of the request, the events of the
  callback, and whether it returned or threw. An event that is not a request has no
  callback. The answer to each request is the environment's.
\<close>

fun callback ::
  "('j, 'd) platform \<Rightarrow> ('j, 'd) event \<Rightarrow> (string \<times> ('j, 'd) event list \<times> unit outcome) option" where
  "callback plat (FsReadFile path p profileKey) =
     Some (profileKey, readFile_callback plat (readFile plat path) p profileKey)"
| "callback plat (NeedleGet u p profileKey) =
     Some (profileKey, needle_callback plat (needle_get plat u) p profileKey)"
| "callback plat ev = None"

text \<open>
  The callbacks that run when the requests of a list complete in the order of the list.
  Nothing catches an exception that leaves a callback: the process ends with it, and the
  callbacks still pending do not run.
\<close>

fun callbacks ::
  "('j, 'd) platform \<Rightarrow> ('j, 'd) event list \<Rightarrow> (string \<times> ('j, 'd) event list \<times> unit outcome) list" where
  "callbacks plat [] = []"
| "callbacks plat (ev # evs) =
     (case callback plat ev of
        None \<Rightarrow> callbacks plat evs
      | Some (profileKey, es, Threw e) \<Rightarrow> [(profileKey, es, Threw e)]
      | Some (profileKey, es, Returned u) \<Rightarrow> (profileKey, es, Returned u) # callbacks plat evs)"

section \<open>The code assembler of a generator\<close>

text \<open>
  \<open>lib/generator/index.js\<close> composes three sub-generators over one array of lines.
  A definition is seen here through its resources and its models.
\<close>

record ('r, 'm) api_definition =
  resources :: "'r list"
  models :: "'m list"

text \<open>
  The text each sub-generator produces: the boilerplate of a definition, the lines of
  one resource, the lines of one model.
\<close>

record ('r, 'm) sub_generators =
  initial_code :: "('r, 'm) api_definition \<Rightarrow> string list"
  service_code :: "('r, 'm) api_definition \<Rightarrow> 'r \<Rightarrow> string list"
  model_code :: "('r, 'm) api_definition \<Rightarrow> 'm \<Rightarrow> string list"

text \<open>
  Modelled from the spec: \<open>./generate-initial-code\<close>, which is not among the sources.
  It returns a new array holding the boilerplate lines.
\<close>

definition generateInitialCode ::
  "('r, 'm) sub_generators \<Rightarrow> ('r, 'm) api_definition \<Rightarrow> string list" where
  "generateInitialCode sg d = initial_code sg d"

text \<open>
  Modelled from the spec: \<open>./generate-services\<close>, which is not among the sources.
  It appends the service lines of each resource, in resource order, to the array it is
  given, and leaves the earlier entries as they are.
\<close>

definition generateServices ::
  "('r, 'm) sub_generators \<Rightarrow> ('r, 'm) api_definition \<Rightarrow> string list \<Rightarrow> string list" where
  "generateServices sg d code = code @ concat (map (service_code sg d) (resources d))"

text \<open>
  Modelled from the spec: \<open>./generate-models\<close>, which is not among the sources.
  It appends the lines of each model, in model order, to the array it is given, and
  leaves the earlier entries as they are.
\<close>

definition generateModels ::
  "('r, 'm) sub_generators \<Rightarrow> ('r, 'm) api_definition \<Rightarrow> string list \<Rightarrow> string list" where
  "generateModels sg d code = code @ concat (map (model_code sg d) (models d))"

text \<open>\<open>code.push('')\<close>\<close>

definition push :: "string list \<Rightarrow> string \<Rightarrow> string list" where
  "push code line = code @ [line]"

text \<open>The array \<open>code\<close> as it is when \<open>join\<close> is called.\<close>

definition assembled_lines ::
  "('r, 'm) sub_generators \<Rightarrow> ('r, 'm) api_definition \<Rightarrow> string list" where
  "assembled_lines sg d =
     (let code = generateInitialCode sg d;
          code = generateServices sg d code;
          code = push code [];
          code = generateModels sg d code
      in code)"

text \<open>The exported function of \<open>lib/generator/index.js\<close>; \<open>newline\<close> is \<open>os.EOL\<close>.\<close>

definition generator_exports ::
  "('r, 'm) sub_generators \<Rightarrow> string \<Rightarrow> ('r, 'm) api_definition \<Rightarrow> string" where
  "generator_exports sg newline d = join newline (assembled_lines sg d)"

section \<open>Notions used to state the properties\<close>

text \<open>
  The profiles the loop dispatches: the profiles without \<open>skip\<close>, up to the first one
  whose validation throws.
\<close>

definition reached :: "config \<Rightarrow> config" where
  "reached cfg = takeWhile (\<lambda>(k, p). fst (verifyProfile p) = Returned ())
                   (filter (\<lambda>(k, p). \<not> skip p) cfg)"

text \<open>The branch of lines 121 to 125 and the events it adds.\<close>

definition dispatch :: "('j, 'd) platform \<Rightarrow> string \<Rightarrow> profile \<Rightarrow> ('j, 'd) event list" where
  "dispatch plat k q =
     fst (if truthy (file q) then handleFileSwagger plat q k else handleUrlSwagger plat q k)"

text \<open>
  The requests in a list of events with the profile key and profile of their callbacks;
  the URLs fetched; the files read.
\<close>

fun requests :: "('j, 'd) event list \<Rightarrow> (string \<times> profile) list" where
  "requests [] = []"
| "requests (FsReadFile path q k # evs) = (k, q) # requests evs"
| "requests (NeedleGet u q k # evs) = (k, q) # requests evs"
| "requests (ev # evs) = requests evs"

fun fetches :: "('j, 'd) event list \<Rightarrow> (string \<times> string) list" where
  "fetches [] = []"
| "fetches (NeedleGet u q k # evs) = (k, u) # fetches evs"
| "fetches (ev # evs) = fetches evs"

fun reads :: "('j, 'd) event list \<Rightarrow> (string \<times> string) list" where
  "reads [] = []"
| "reads (FsReadFile path q k # evs) = (k, path) # reads evs"
| "reads (ev # evs) = reads evs"

text \<open>Every callback of a run returned: the process is still alive after them.\<close>

fun completed :: "(string \<times> ('j, 'd) event list \<times> unit outcome) list \<Rightarrow> bool" where
  "completed [] = True"
| "completed ((k, es, Returned u) # cbs) = completed cbs"
| "completed ((k, es, Threw e) # cbs) = False"

section \<open>Example inputs\<close>

text \<open>The profile \<open>{}\<close>.\<close>

definition empty_profile :: profile where
  "empty_profile = \<lparr>file = None, url = None, output = None, generator = None, skip = False,
     debug = None, transforms = None, options = None\<rparr>"

text \<open>\<open>{file: "petstore.json", output: "petstore.ts", generator: "typescript"}\<close>\<close>

definition petstore_profile :: profile where
  "petstore_profile = \<lparr>file = Some ''petstore.json'', url = None, output = Some ''petstore.ts'',
     generator = Some ''typescript'', skip = False, debug = None, transforms = None, options = None\<rparr>"

text \<open>\<open>{url: "https://x/doc.json", output: "out.cs", generator: "core"}\<close>\<close>

definition core_profile :: profile where
  "core_profile = \<lparr>file = None, url = Some ''https://x/doc.json'', output = Some ''out.cs'',
     generator = Some ''core'', skip = False, debug = None, transforms = None, options = None\<rparr>"

text \<open>\<open>path.resolve\<close> on an absolute path or a plain relative name.\<close>

definition posix_resolve :: "string \<Rightarrow> string \<Rightarrow> string" where
  "posix_resolve dir f = (case f of [] \<Rightarrow> dir | c # cs \<Rightarrow> if c = CHR ''/'' then f else dir @ ''/'' @ f)"

text \<open>A generator package without the hook, one whose hook rejects every profile, one
  whose hook accepts every profile, and one whose \<open>generate\<close> throws.\<close>

definition plain_pkg :: "string generator_pkg" where
  "plain_pkg = \<lparr>validateProfile = None, generate = (\<lambda>d p. (Returned (''// '' @ d), p))\<rparr>"

definition strict_pkg :: "string generator_pkg" where
  "strict_pkg = \<lparr>validateProfile = Some (\<lambda>p. (Threw (Error ''unsupported profile''), p)),
     generate = (\<lambda>d p. (Returned (''// '' @ d), p))\<rparr>"

definition checked_pkg :: "string generator_pkg" where
  "checked_pkg = \<lparr>validateProfile = Some (\<lambda>p. (Returned (), p)),
     generate = (\<lambda>d p. (Returned (''// '' @ d), p))\<rparr>"

definition failing_pkg :: "string generator_pkg" where
  "failing_pkg = \<lparr>validateProfile = None,
     generate = (\<lambda>d p. (Threw (Error ''generation failed''), p))\<rparr>"

text \<open>
  An environment with the working directory \<open>/work\<close>, one readable file
  \<open>/work/petstore.json\<close> holding \<open>{}\<close>, no network, and the packages
  \<open>swagen-typescript\<close>, \<open>swagen-strict\<close>, \<open>swagen-checked\<close> and
  \<open>swagen-failing\<close>. The parser accepts the document \<open>{}\<close> only. Documents and definitions are kept
  as text.
\<close>

definition demo_platform :: "(string, string) platform" where
  "demo_platform = \<lparr>
     currentDir = ''/work'',
     EOL = [CHR 0x0A],
     path_resolve = posix_resolve,
     JSON_parse = (\<lambda>s. if s = ''{}'' then Returned s
                        else if s = ''{,}'' then Threw (SyntaxError (Some 1) ''Unexpected token ,'')
                        else Threw (SyntaxError None ''Unexpected end of JSON input'')),
     JSON_stringify = (\<lambda>d. d),
     Parser_parse = (\<lambda>j. if j = ''{}'' then Returned j else Threw (Error ''not an API description'')),
     require = (\<lambda>m. if m = ''swagen-typescript'' then Returned plain_pkg
                     else if m = ''swagen-strict'' then Returned strict_pkg
                     else if m = ''swagen-checked'' then Returned checked_pkg
                     else if m = ''swagen-failing'' then Returned failing_pkg
                     else Threw (Error ''Cannot find module'')),
     existsSync = (\<lambda>f. False),
     require_config = (\<lambda>f. Returned []),
     readFile = (\<lambda>f. if f = ''/work/petstore.json'' then Inr ''{}'' else Inl (Error ''ENOENT'')),
     needle_get = (\<lambda>u. Inl (Error ''ECONNREFUSED''))\<rparr>"

text \<open>A configuration of two profiles; the second has no input source.\<close>

definition pets_then_api :: config where
  "pets_then_api = [(''pets'', petstore_profile), (''api'', empty_profile)]"

text \<open>A profile with a generator name in the reserved \<open>-language\<close> namespace, and a
  configuration whose second profile is the one with the reserved name \<open>core\<close>.\<close>

definition language_profile :: profile where
  "language_profile = \<lparr>file = Some ''api.json'', url = None, output = Some ''out.ts'',
     generator = Some ''TypeScript-Language'', skip = False, debug = None, transforms = None,
     options = None\<rparr>"

definition pets_then_core :: config where
  "pets_then_core = [(''pets'', petstore_profile), (''remote'', core_profile)]"

text \<open>A profile with \<open>skip: true\<close> and nothing else, and a profile with both a file
  and a URL.\<close>

definition skipped_profile :: profile where
  "skipped_profile = empty_profile\<lparr>skip := True\<rparr>"

definition both_profile :: profile where
  "both_profile = \<lparr>file = Some ''petstore.json'', url = Some ''https://x/doc.json'',
     output = Some ''petstore.ts'', generator = Some ''typescript'', skip = False,
     debug = None, transforms = None, options = None\<rparr>"

text \<open>The petstore profile after validation.\<close>

definition validated_petstore :: profile where
  "validated_petstore = petstore_profile\<lparr>debug := Some empty_debug, transforms := Some [], options := Some []\<rparr>"

text \<open>Sub-generators that emit one boilerplate line, two lines for each resource and one
  line for each model, and a definition with two resources and two models.\<close>

definition demo_generators :: "(string, string) sub_generators" where
  "demo_generators = \<lparr>
     initial_code = (\<lambda>d. [''// generated'']),
     service_code = (\<lambda>d r. [''service '' @ r, ''end'']),
     model_code = (\<lambda>d m. [''model '' @ m])\<rparr>"

definition demo_definition :: "(string, string) api_definition" where
  "demo_definition = \<lparr>resources = [''pets'', ''users''], models = [''Pet'', ''User'']\<rparr>"

text \<open>A configuration whose first profile has no input source; the example
  environment with a configuration file that holds a given configuration; and the
  validated petstore profile with the name of a generator that is not installed.\<close>

definition api_then_pets :: config where
  "api_then_pets = [(''api'', empty_profile), (''pets'', petstore_profile)]"

definition configured :: "config \<Rightarrow> (string, string) platform" where
  "configured cfg = demo_platform\<lparr>existsSync := (\<lambda>f. True), require_config := (\<lambda>f. Returned cfg)\<rparr>"

definition missing_generator_profile :: profile where
  "missing_generator_profile = validated_petstore\<lparr>generator := Some ''missing''\<rparr>"

text \<open>A validated profile whose file does not exist, and a generator package whose hook
  accepts every profile and whose \<open>generate\<close> throws.\<close>

definition ghost_profile :: profile where
  "ghost_profile = validated_petstore\<lparr>file := Some ''ghost.json''\<rparr>"

definition checked_failing_pkg :: "string generator_pkg" where
  "checked_failing_pkg = \<lparr>validateProfile = Some (\<lambda>p. (Returned (), p)),
     generate = (\<lambda>d p. (Threw (Error ''generation failed''), p))\<rparr>"

section \<open>Properties of verifyProfile\<close>

lemma verifyProfile_throws_unchanged:
  "fst (verifyProfile p) \<noteq> Returned () \<Longrightarrow> snd (verifyProfile p) = p"
  by (simp add: verifyProfile_def split: if_splits)

lemma verifyProfile_Returned:
  "fst (verifyProfile p) = Returned () \<Longrightarrow>
     verifyProfile p = (Returned (), default_options (default_transforms (default_debug p)))"
  by (simp add: verifyProfile_def split: if_splits)

lemma defaults_eq:
  "default_options (default_transforms (default_debug p)) =
       p\<lparr>debug := Some (case debug p of None \<Rightarrow> empty_debug | Some d \<Rightarrow> d),
         transforms := Some (case transforms p of None \<Rightarrow> [] | Some t \<Rightarrow> t),
         options := Some (case options p of None \<Rightarrow> [] | Some t \<Rightarrow> t)\<rparr>"
  by (cases "debug p"; cases "transforms p"; cases "options p")
     (simp_all add: default_debug_def default_transforms_def default_options_def)

lemma defaults_same:
  "file (default_options (default_transforms (default_debug p))) = file p"
  "url (default_options (default_transforms (default_debug p))) = url p"
  "output (default_options (default_transforms (default_debug p))) = output p"
  "generator (default_options (default_transforms (default_debug p))) = generator p"
  "skip (default_options (default_transforms (default_debug p))) = skip p"
  by (simp_all add: defaults_eq)

lemma verifyProfile_idem:
  assumes "fst (verifyProfile p) = Returned ()"
  shows "verifyProfile (snd (verifyProfile p)) = (Returned (), snd (verifyProfile p))"
proof -
  let ?q = "default_options (default_transforms (default_debug p))"
  have q: "verifyProfile p = (Returned (), ?q)"
    using assms by (rule verifyProfile_Returned)
  have checks: "\<not> (\<not> truthy (file p) \<and> \<not> truthy (url p))" "truthy (output p)" "truthy (generator p)"
    "toLowerCase (interpolate (generator p)) \<noteq> ''core''"
    "\<not> language_pattern (interpolate (generator p))"
    using assms by (simp_all add: verifyProfile_def split: if_splits)
  have fixed: "default_options (default_transforms (default_debug ?q)) = ?q"
    by (simp add: defaults_eq)
  have "verifyProfile ?q = (Returned (), default_options (default_transforms (default_debug ?q)))"
    unfolding verifyProfile_def [of ?q] defaults_same using checks by simp
  with fixed q show ?thesis by simp
qed

lemma verifyProfile_cases:
  obtains (threw) e where "verifyProfile p = (Threw e, p)"
  | (returned) "verifyProfile p = (Returned (), default_options (default_transforms (default_debug p)))"
proof (cases "fst (verifyProfile p)")
  case (Returned u)
  then have "fst (verifyProfile p) = Returned ()" by simp
  from verifyProfile_Returned [OF this] show ?thesis by (rule returned)
next
  case (Threw e)
  then have "fst (verifyProfile p) \<noteq> Returned ()" by simp
  from verifyProfile_throws_unchanged [OF this] Threw have "verifyProfile p = (Threw e, p)"
    by (simp add: prod_eq_iff)
  then show ?thesis by (rule threw)
qed

text \<open>
  C10. Validation is atomic: when a check fails the profile object is left as it was;
  when every check passes the three defaults are filled in where absent and nothing else
  changes, and validating the result again changes nothing.
\<close>

theorem verifyProfile_atomic:
  "(fst (verifyProfile p) \<noteq> Returned () \<longrightarrow> snd (verifyProfile p) = p) \<and>
   (fst (verifyProfile p) = Returned () \<longrightarrow>
      snd (verifyProfile p) =
        p\<lparr>debug := Some (case debug p of None \<Rightarrow> empty_debug | Some d \<Rightarrow> d),
          transforms := Some (case transforms p of None \<Rightarrow> [] | Some t \<Rightarrow> t),
          options := Some (case options p of None \<Rightarrow> [] | Some t \<Rightarrow> t)\<rparr> \<and>
      verifyProfile (snd (verifyProfile p)) = (Returned (), snd (verifyProfile p)))"
proof (intro conjI impI)
  assume "fst (verifyProfile p) \<noteq> Returned ()"
  then show "snd (verifyProfile p) = p" by (rule verifyProfile_throws_unchanged)
next
  assume r: "fst (verifyProfile p) = Returned ()"
  from verifyProfile_Returned [OF r] show "snd (verifyProfile p) =
        p\<lparr>debug := Some (case debug p of None \<Rightarrow> empty_debug | Some d \<Rightarrow> d),
          transforms := Some (case transforms p of None \<Rightarrow> [] | Some t \<Rightarrow> t),
          options := Some (case options p of None \<Rightarrow> [] | Some t \<Rightarrow> t)\<rparr>"
    by (simp add: defaults_eq)
  from r show "verifyProfile (snd (verifyProfile p)) = (Returned (), snd (verifyProfile p))"
    by (rule verifyProfile_idem)
qed

theorem verifyProfile_atomic_witness:
  "fst (verifyProfile empty_profile) \<noteq> Returned () \<and>
   snd (verifyProfile empty_profile) = empty_profile \<and>
   fst (verifyProfile petstore_profile) = Returned () \<and>
   snd (verifyProfile petstore_profile) =
     petstore_profile\<lparr>debug := Some empty_debug, transforms := Some [], options := Some []\<rparr> \<and>
   verifyProfile (snd (verifyProfile petstore_profile)) =
     (Returned (), snd (verifyProfile petstore_profile))"
proof -
  have bad: "fst (verifyProfile empty_profile) \<noteq> Returned ()"
    by (simp add: verifyProfile_def empty_profile_def truthy_def)
  have good: "fst (verifyProfile petstore_profile) = Returned ()"
    by (simp add: verifyProfile_def petstore_profile_def truthy_def interpolate_def
        toLowerCase_def lower_char_def is_upper_def is_lower_def is_digit_def
        word_or_hyphen_def language_pattern_def match_literal_ci_end_def)
  have fields: "debug petstore_profile = None" "transforms petstore_profile = None"
    "options petstore_profile = None"
    by (simp_all add: petstore_profile_def)
  from bad verifyProfile_atomic [of empty_profile]
  have a: "snd (verifyProfile empty_profile) = empty_profile" by blast
  from good verifyProfile_atomic [of petstore_profile]
  have b0: "snd (verifyProfile petstore_profile) =
     petstore_profile\<lparr>debug := Some (case debug petstore_profile of None \<Rightarrow> empty_debug | Some d \<Rightarrow> d),
       transforms := Some (case transforms petstore_profile of None \<Rightarrow> [] | Some t \<Rightarrow> t),
       options := Some (case options petstore_profile of None \<Rightarrow> [] | Some t \<Rightarrow> t)\<rparr>"
    and c: "verifyProfile (snd (verifyProfile petstore_profile)) =
     (Returned (), snd (verifyProfile petstore_profile))"
    by blast+
  from b0 have b: "snd (verifyProfile petstore_profile) =
     petstore_profile\<lparr>debug := Some empty_debug, transforms := Some [], options := Some []\<rparr>"
    by (simp add: fields)
  from bad good a b c show ?thesis by blast
qed

text \<open>
  C2. A profile that fails a check: the value thrown is the \<open>ReferenceError\<close> for the
  unbound \<open>profileKey\<close>, for the profile without an input source and for the one with
  the reserved generator name alike. It carries neither the profile's key nor the rule.
\<close>

theorem verifyProfile_throws_ReferenceError:
  "verifyProfile empty_profile =
     (Threw (ReferenceError ''profileKey is not defined''), empty_profile) \<and>
   verifyProfile core_profile =
     (Threw (ReferenceError ''profileKey is not defined''), core_profile)"
  by (simp add: verifyProfile_def empty_profile_def core_profile_def truthy_def interpolate_def
      toLowerCase_def lower_char_def is_upper_def new_Error_def profileKey_in_verifyProfile_def)

section \<open>Properties of processInputs\<close>

lemma processInputs_skip:
  "skip p \<Longrightarrow> processInputs plat ((k, p) # rest) =
     (case processInputs plat rest of (evs, r, rest') \<Rightarrow> (evs, r, (k, p) # rest'))"
  by simp

lemma processInputs_invalid:
  "\<not> skip p \<Longrightarrow> verifyProfile p = (Threw e, p') \<Longrightarrow>
     processInputs plat ((k, p) # rest) = ([], Threw e, (k, p') # rest)"
  by simp

lemma processInputs_file:
  assumes "\<not> skip p" "verifyProfile p = (Returned (), q)" "file q = Some f" "f \<noteq> []"
  shows "processInputs plat ((k, p) # rest) =
     (case processInputs plat rest of (evs, r, rest') \<Rightarrow>
        (CliInfo (''['' @ k @ ''] Input swagger file : '' @ path_resolve plat (currentDir plat) f) #
         FsReadFile (path_resolve plat (currentDir plat) f) q k # evs, r, (k, q) # rest'))"
  using assms by (simp add: handleFileSwagger_def truthy_def Let_def split: prod.splits)

lemma processInputs_url:
  assumes "\<not> skip p" "verifyProfile p = (Returned (), q)" "\<not> truthy (file q)" "url q = Some u"
  shows "processInputs plat ((k, p) # rest) =
     (case processInputs plat rest of (evs, r, rest') \<Rightarrow>
        (CliInfo (''['' @ k @ ''] Input swagger URL : '' @ u) # NeedleGet u q k # evs, r, (k, q) # rest'))"
  using assms by (simp add: handleUrlSwagger_def split: prod.splits)

lemma verifyProfile_source:
  assumes "verifyProfile p = (Returned (), q)"
  shows "file q = file p" "url q = url p" "truthy (file p) \<or> truthy (url p)"
proof -
  from assms have r: "fst (verifyProfile p) = Returned ()" by simp
  from verifyProfile_Returned [OF r] assms
  have q: "q = default_options (default_transforms (default_debug p))" by simp
  show "file q = file p" "url q = url p" by (simp_all add: q defaults_same)
  from r show "truthy (file p) \<or> truthy (url p)"
    by (simp add: verifyProfile_def split: if_splits)
qed

lemma truthyE: "truthy v \<Longrightarrow> \<exists>s. v = Some s \<and> s \<noteq> []"
  by (cases v) (simp_all add: truthy_def)

lemma dispatch_file:
  "file q = Some f \<Longrightarrow> f \<noteq> [] \<Longrightarrow> dispatch plat k q =
     [CliInfo (''['' @ k @ ''] Input swagger file : '' @ path_resolve plat (currentDir plat) f),
      FsReadFile (path_resolve plat (currentDir plat) f) q k]"
  by (simp add: dispatch_def truthy_def handleFileSwagger_def Let_def)

lemma dispatch_url:
  "\<not> truthy (file q) \<Longrightarrow> url q = Some u \<Longrightarrow> dispatch plat k q =
     [CliInfo (''['' @ k @ ''] Input swagger URL : '' @ u), NeedleGet u q k]"
  by (simp add: dispatch_def handleUrlSwagger_def)

lemma reached_skip: "skip p \<Longrightarrow> reached ((k, p) # rest) = reached rest"
  by (simp add: reached_def)

lemma reached_invalid:
  "\<not> skip p \<Longrightarrow> fst (verifyProfile p) \<noteq> Returned () \<Longrightarrow> reached ((k, p) # rest) = []"
  by (simp add: reached_def)

lemma reached_valid:
  "\<not> skip p \<Longrightarrow> fst (verifyProfile p) = Returned () \<Longrightarrow>
     reached ((k, p) # rest) = (k, p) # reached rest"
  by (simp add: reached_def)

lemma processInputs_events:
  "fst (processInputs plat cfg) =
     concat (map (\<lambda>(k, p). dispatch plat k (snd (verifyProfile p))) (reached cfg))"
proof (induction cfg)
  case Nil
  show ?case by (simp add: reached_def)
next
  case (Cons kp rest)
  obtain k p where kp: "kp = (k, p)" by (cases kp)
  obtain evs r rest' where rec: "processInputs plat rest = (evs, r, rest')"
    by (cases "processInputs plat rest")
  with Cons.IH have IH: "evs = concat (map (\<lambda>(k, p). dispatch plat k (snd (verifyProfile p))) (reached rest))"
    by simp
  show ?case
  proof (cases "skip p")
    case True
    then show ?thesis unfolding kp by (simp add: reached_skip rec IH del: processInputs.simps add: processInputs_skip)
  next
    case False
    show ?thesis
    proof (cases p rule: verifyProfile_cases)
      case (threw e)
      from processInputs_invalid [OF False threw, of plat k rest] threw False show ?thesis
        unfolding kp by (simp add: reached_invalid del: processInputs.simps)
    next
      case returned
      let ?q = "default_options (default_transforms (default_debug p))"
      have valid: "fst (verifyProfile p) = Returned ()" using returned by simp
      have q: "snd (verifyProfile p) = ?q" using returned by simp
      note src = verifyProfile_source [OF returned]
      show ?thesis
      proof (cases "truthy (file ?q)")
        case True
        then obtain f where f: "file ?q = Some f" "f \<noteq> []" using truthyE by blast
        from processInputs_file [OF False returned f, of plat k rest] dispatch_file [OF f, of plat k]
        show ?thesis unfolding kp
          by (simp add: reached_valid [OF False valid] q rec IH del: processInputs.simps)
      next
        case nofile: False
        with src have "truthy (url ?q)" by simp
        then obtain u where u: "url ?q = Some u" using truthyE by blast
        from processInputs_url [OF False returned nofile u, of plat k rest] dispatch_url [OF nofile u, of plat k]
        show ?thesis unfolding kp
          by (simp add: reached_valid [OF False valid] q rec IH del: processInputs.simps)
      qed
    qed
  qed
qed

lemma requests_append: "requests (xs @ ys) = requests xs @ requests ys"
  by (induction xs rule: requests.induct) simp_all

lemma fetches_append: "fetches (xs @ ys) = fetches xs @ fetches ys"
  by (induction xs rule: fetches.induct) simp_all

lemma reads_append: "reads (xs @ ys) = reads xs @ reads ys"
  by (induction xs rule: reads.induct) simp_all

lemma callbacks_append:
  "callbacks plat (xs @ ys) =
     callbacks plat xs @ (if completed (callbacks plat xs) then callbacks plat ys else [])"
proof (induction xs)
  case Nil
  show ?case by simp
next
  case (Cons ev xs)
  show ?case
  proof (cases "callback plat ev")
    case None
    with Cons show ?thesis by simp
  next
    case (Some c)
    obtain k es r where c: "c = (k, es, r)" by (cases c)
    show ?thesis
    proof (cases r)
      case (Returned u)
      with Some c Cons show ?thesis by simp
    next
      case (Threw e)
      with Some c show ?thesis by simp
    qed
  qed
qed

lemma callback_request:
  "callback plat ev = Some (k, es, r) \<Longrightarrow> \<exists>q. requests [ev] = [(k, q)]"
  by (cases ev) simp_all

lemma requests_mem:
  "(k, q) \<in> set (requests evs) \<Longrightarrow> \<exists>ev \<in> set evs. requests [ev] = [(k, q)]"
  by (induction evs rule: requests.induct) auto

lemma requests_of_mem:
  "ev \<in> set evs \<Longrightarrow> requests [ev] = [(k, q)] \<Longrightarrow> (k, q) \<in> set (requests evs)"
  by (induction evs rule: requests.induct) auto

lemma callbacks_mem:
  "c \<in> set (callbacks plat evs) \<Longrightarrow> \<exists>ev \<in> set evs. callback plat ev = Some c"
proof (induction evs)
  case Nil
  then show ?case by simp
next
  case (Cons ev evs)
  show ?case
  proof (cases "callback plat ev")
    case None
    with Cons show ?thesis by simp
  next
    case (Some c')
    obtain k es r where c': "c' = (k, es, r)" by (cases c')
    show ?thesis
    proof (cases r)
      case (Returned u)
      with Some c' Cons show ?thesis by auto
    next
      case (Threw e)
      with Some c' Cons.prems show ?thesis by simp
    qed
  qed
qed

lemma callbacks_keys:
  assumes "set order \<subseteq> set evs"
  shows "fst ` set (callbacks plat order) \<subseteq> fst ` set (requests evs)"
proof
  fix k assume "k \<in> fst ` set (callbacks plat order)"
  then obtain es r where "(k, es, r) \<in> set (callbacks plat order)" by auto
  from callbacks_mem [OF this] obtain ev where ev: "ev \<in> set order" "callback plat ev = Some (k, es, r)"
    by blast
  from callback_request [OF ev(2)] obtain q where "requests [ev] = [(k, q)]" by blast
  from requests_of_mem [OF _ this, of evs] ev(1) assms have "(k, q) \<in> set (requests evs)" by blast
  then show "k \<in> fst ` set (requests evs)" by force
qed

lemma dispatch_cases:
  "dispatch plat k q =
     (case file q of
        Some (c # cs) \<Rightarrow>
          [CliInfo (''['' @ k @ ''] Input swagger file : '' @ path_resolve plat (currentDir plat) (c # cs)),
           FsReadFile (path_resolve plat (currentDir plat) (c # cs)) q k]
      | _ \<Rightarrow>
         (case url q of
            None \<Rightarrow> [CliInfo (''['' @ k @ ''] Input swagger URL : undefined'')]
          | Some u \<Rightarrow> [CliInfo (''['' @ k @ ''] Input swagger URL : '' @ u), NeedleGet u q k]))"
  by (simp add: dispatch_def truthy_def handleFileSwagger_def handleUrlSwagger_def Let_def interpolate_def
      split: option.splits list.splits)

lemma reached_subset: "(k, p) \<in> set (reached cfg) \<Longrightarrow>
   (k, p) \<in> set cfg \<and> \<not> skip p \<and> fst (verifyProfile p) = Returned ()"
proof -
  assume a: "(k, p) \<in> set (reached cfg)"
  then have "(k, p) \<in> set (filter (\<lambda>(k, p). \<not> skip p) cfg)"
    unfolding reached_def by (rule set_takeWhileD [THEN conjunct1])
  moreover from a have "(\<lambda>(k, p). fst (verifyProfile p) = Returned ()) (k, p)"
    unfolding reached_def by (rule set_takeWhileD [THEN conjunct2])
  ultimately show ?thesis by simp
qed

lemma requests_processInputs:
  "requests (fst (processInputs plat cfg)) = map (\<lambda>(k, p). (k, snd (verifyProfile p))) (reached cfg)"
proof -
  have one: "requests (dispatch plat k (snd (verifyProfile p))) = [(k, snd (verifyProfile p))]"
    if "(k, p) \<in> set (reached cfg)" for k p
  proof -
    from reached_subset [OF that] have v: "fst (verifyProfile p) = Returned ()" by simp
    then have vp: "verifyProfile p = (Returned (), snd (verifyProfile p))"
      by (simp add: prod_eq_iff)
    from verifyProfile_source [OF vp]
    have "truthy (file (snd (verifyProfile p))) \<or> truthy (url (snd (verifyProfile p)))" by simp
    then show ?thesis
      by (auto simp: dispatch_cases truthy_def split: option.splits list.splits)
  qed
  have "requests (concat (map (\<lambda>(k, p). dispatch plat k (snd (verifyProfile p))) xs)) =
        map (\<lambda>(k, p). (k, snd (verifyProfile p))) xs" if "set xs \<subseteq> set (reached cfg)" for xs
    using that
  proof (induction xs)
    case Nil
    show ?case by simp
  next
    case (Cons x xs)
    obtain k p where x: "x = (k, p)" by (cases x)
    with Cons.prems have "(k, p) \<in> set (reached cfg)" by simp
    from one [OF this] Cons show ?case by (simp add: x requests_append)
  qed
  then show ?thesis by (simp add: processInputs_events)
qed

lemma distinct_keys: "distinct (map fst cfg) \<Longrightarrow> (k, p) \<in> set cfg \<Longrightarrow> (k, p') \<in> set cfg \<Longrightarrow> p' = p"
  by (meson eq_key_imp_eq_value)

lemma request_keys:
  assumes "k \<in> fst ` set (requests (fst (processInputs plat cfg)))"
  shows "\<exists>p. (k, p) \<in> set cfg \<and> \<not> skip p \<and> fst (verifyProfile p) = Returned ()"
proof -
  from assms obtain p where "(k, p) \<in> set (reached cfg)"
    by (auto simp: requests_processInputs)
  from reached_subset [OF this] show ?thesis by blast
qed

lemma no_request:
  assumes "distinct (map fst cfg)" "(k, p) \<in> set cfg" "skip p \<or> fst (verifyProfile p) \<noteq> Returned ()"
  shows "k \<notin> fst ` set (requests (fst (processInputs plat cfg)))"
proof
  assume "k \<in> fst ` set (requests (fst (processInputs plat cfg)))"
  from request_keys [OF this] obtain p' where p': "(k, p') \<in> set cfg" "\<not> skip p'"
    "fst (verifyProfile p') = Returned ()" by blast
  from distinct_keys [OF assms(1,2) p'(1)] p' assms(3) show False by simp
qed

lemma run_generator_no_requests: "requests (fst (run_generator plat pkg d p k)) = []"
  by (simp add: run_generator_def call_validateProfile_def Let_def requests_append
      split: outcome.splits option.splits prod.splits)

lemma catch_parse_no_requests: "requests (catch_parse e k) = []"
  by (simp add: catch_parse_def requests_append split: js_exn.splits)

lemma debug_dump_no_requests: "requests (debug_dump plat d dbg k) = []"
  by (simp add: debug_dump_def)

lemma handleSwagger_no_requests: "requests (fst (handleSwagger plat doc p k)) = []"
  by (auto simp: handleSwagger_def Let_def requests_append
      catch_parse_no_requests debug_dump_no_requests
      split: outcome.splits option.splits prod.splits)
     (metis fst_conv run_generator_no_requests)

lemma fetches_requests: "fst ` set (fetches evs) \<subseteq> fst ` set (requests evs)"
  by (induction evs rule: fetches.induct) auto

lemma reads_requests: "fst ` set (reads evs) \<subseteq> fst ` set (requests evs)"
  by (induction evs rule: reads.induct) auto

lemma requests_Nil_fetches: "requests evs = [] \<Longrightarrow> fetches evs = [] \<and> reads evs = []"
  by (induction evs rule: requests.induct) simp_all

lemma readFile_callback_no_requests:
  "requests (fst (readFile_callback plat answer p k)) = []"
  by (cases answer) (simp_all add: readFile_callback_def handleSwagger_no_requests)

lemma needle_callback_no_requests:
  "requests (fst (needle_callback plat answer p k)) = []"
  by (cases answer) (simp_all add: needle_callback_def handleSwagger_no_requests)

lemma callback_no_requests:
  assumes "(k, es, r) \<in> set (callbacks plat order)"
  shows "requests es = []"
proof -
  from callbacks_mem [OF assms] obtain ev where ev: "callback plat ev = Some (k, es, r)" by blast
  show ?thesis
  proof (cases ev)
    case (FsReadFile path p profileKey)
    with ev have "es = fst (readFile_callback plat (readFile plat path) p profileKey)"
      by (auto simp: prod_eq_iff)
    then show ?thesis by (simp add: readFile_callback_no_requests)
  next
    case (NeedleGet u p profileKey)
    with ev have "es = fst (needle_callback plat (needle_get plat u) p profileKey)"
      by (auto simp: prod_eq_iff)
    then show ?thesis by (simp add: needle_callback_no_requests)
  qed (use ev in simp_all)
qed

lemma callbacks_single:
  "callback plat ev = Some (k, es, r) \<Longrightarrow> callbacks plat [ev] = [(k, es, r)]"
  by (cases r) simp_all

lemma callbacks_Returned:
  "callback plat ev = Some (k, es, Returned ()) \<Longrightarrow>
     callbacks plat (ev # evs) = (k, es, Returned ()) # callbacks plat evs"
  by simp

lemma callbacks_Threw:
  "callback plat ev = Some (k, es, Threw e) \<Longrightarrow> callbacks plat (ev # evs) = [(k, es, Threw e)]"
  by simp

lemmas eval_defs = verifyProfile_def truthy_def interpolate_def
  toLowerCase_def lower_char_def is_upper_def is_lower_def is_digit_def
  word_or_hyphen_def language_pattern_def match_literal_ci_end_def
  default_debug_def default_transforms_def default_options_def
  new_Error_def profileKey_in_verifyProfile_def
  handleFileSwagger_def handleUrlSwagger_def Let_def posix_resolve_def

lemma verifyProfile_fails:
  "fst (verifyProfile p) \<noteq> Returned () \<Longrightarrow> \<exists>e. verifyProfile p = (Threw e, p)"
  by (cases p rule: verifyProfile_cases) auto

lemma sync_requests_validated:
  assumes "(k', q) \<in> set (requests (fst (processInputs plat cfg)))"
  shows "\<exists>p'. (k', p') \<in> set cfg \<and> \<not> skip p' \<and> verifyProfile p' = (Returned (), q) \<and>
           debug q \<noteq> None \<and> transforms q \<noteq> None \<and> options q \<noteq> None"
proof -
  from assms obtain p' where in_r: "(k', p') \<in> set (reached cfg)" and q: "q = snd (verifyProfile p')"
    by (auto simp: requests_processInputs)
  from reached_subset [OF in_r] have m: "(k', p') \<in> set cfg" "\<not> skip p'"
    and v: "fst (verifyProfile p') = Returned ()" by simp_all
  from verifyProfile_Returned [OF v] q
  have q': "q = default_options (default_transforms (default_debug p'))" by simp
  have "debug q \<noteq> None \<and> transforms q \<noteq> None \<and> options q \<noteq> None"
    unfolding q' defaults_eq by simp
  moreover from v q have "verifyProfile p' = (Returned (), q)" by (simp add: prod_eq_iff)
  ultimately show ?thesis using m by blast
qed

lemma verifyProfile_missing_source:
  "\<not> truthy (file p) \<Longrightarrow> \<not> truthy (url p) \<Longrightarrow>
     verifyProfile p = (Threw (ReferenceError ''profileKey is not defined''), p)"
  by (simp add: verifyProfile_def new_Error_def profileKey_in_verifyProfile_def)

text \<open>
  A profile with neither \<open>file\<close> nor \<open>url\<close> set: validation throws, and what it
  throws is the \<open>ReferenceError\<close> for the unbound \<open>profileKey\<close>; the profile is left
  as it was; when the loop reaches it, the loop throws without an event for it; in a
  configuration (keys are unique) no request, file read or fetch, is issued for its key
  and, in whatever order the requests complete, no callback runs for it. Every request
  that is issued carries a profile that has passed every check and has its three
  defaults in place.
\<close>

lemma missing_source_no_io:
  assumes "\<not> truthy (file p)" and "\<not> truthy (url p)"
  shows "verifyProfile p = (Threw (ReferenceError ''profileKey is not defined''), p) \<and>
         (\<not> skip p \<longrightarrow>
            processInputs plat ((k, p) # rest) =
              ([], Threw (ReferenceError ''profileKey is not defined''), (k, p) # rest)) \<and>
         (distinct (map fst cfg) \<and> (k, p) \<in> set cfg \<longrightarrow>
            k \<notin> fst ` set (requests (fst (processInputs plat cfg)))) \<and>
         (distinct (map fst cfg) \<and> (k, p) \<in> set cfg \<and>
          set order \<subseteq> set (fst (processInputs plat cfg)) \<longrightarrow>
            k \<notin> fst ` set (callbacks plat order)) \<and>
         (\<forall>(k', q) \<in> set (requests (fst (processInputs plat cfg))).
            \<exists>p'. (k', p') \<in> set cfg \<and> \<not> skip p' \<and> verifyProfile p' = (Returned (), q) \<and>
                 debug q \<noteq> None \<and> transforms q \<noteq> None \<and> options q \<noteq> None)"
proof -
  note e = verifyProfile_missing_source [OF assms]
  then have bad: "fst (verifyProfile p) \<noteq> Returned ()" by simp
  have two: "\<not> skip p \<longrightarrow>
            processInputs plat ((k, p) # rest) =
              ([], Threw (ReferenceError ''profileKey is not defined''), (k, p) # rest)"
  proof
    assume "\<not> skip p"
    from processInputs_invalid [OF this e]
    show "processInputs plat ((k, p) # rest) =
              ([], Threw (ReferenceError ''profileKey is not defined''), (k, p) # rest)" .
  qed
  have three: "distinct (map fst cfg) \<and> (k, p) \<in> set cfg \<longrightarrow>
            k \<notin> fst ` set (requests (fst (processInputs plat cfg)))"
  proof
    assume "distinct (map fst cfg) \<and> (k, p) \<in> set cfg"
    then have a: "distinct (map fst cfg)" "(k, p) \<in> set cfg" by simp_all
    from no_request [OF a] bad
    show "k \<notin> fst ` set (requests (fst (processInputs plat cfg)))" by simp
  qed
  have four: "distinct (map fst cfg) \<and> (k, p) \<in> set cfg \<and>
          set order \<subseteq> set (fst (processInputs plat cfg)) \<longrightarrow>
            k \<notin> fst ` set (callbacks plat order)"
  proof
    assume "distinct (map fst cfg) \<and> (k, p) \<in> set cfg \<and>
          set order \<subseteq> set (fst (processInputs plat cfg))"
    then have a: "distinct (map fst cfg)" "(k, p) \<in> set cfg"
      and o: "set order \<subseteq> set (fst (processInputs plat cfg))" by simp_all
    from no_request [OF a] bad
    have "k \<notin> fst ` set (requests (fst (processInputs plat cfg)))" by simp
    with callbacks_keys [OF o, of plat] show "k \<notin> fst ` set (callbacks plat order)" by auto
  qed
  have five: "\<forall>(k', q) \<in> set (requests (fst (processInputs plat cfg))).
            \<exists>p'. (k', p') \<in> set cfg \<and> \<not> skip p' \<and> verifyProfile p' = (Returned (), q) \<and>
                 debug q \<noteq> None \<and> transforms q \<noteq> None \<and> options q \<noteq> None"
  proof (clarify)
    fix k' q
    assume "(k', q) \<in> set (requests (fst (processInputs plat cfg)))"
    from sync_requests_validated [OF this]
    show "\<exists>p'. (k', p') \<in> set cfg \<and> \<not> skip p' \<and> verifyProfile p' = (Returned (), q) \<and>
                 debug q \<noteq> None \<and> transforms q \<noteq> None \<and> options q \<noteq> None" .
  qed
  from e two three four five show ?thesis by (intro conjI)
qed

lemma pets_then_api_run:
  "processInputs demo_platform pets_then_api =
     ([CliInfo ''[pets] Input swagger file : /work/petstore.json'',
       FsReadFile ''/work/petstore.json''
         (petstore_profile\<lparr>debug := Some empty_debug, transforms := Some [], options := Some []\<rparr>) ''pets''],
      Threw (ReferenceError ''profileKey is not defined''),
      [(''pets'', petstore_profile\<lparr>debug := Some empty_debug, transforms := Some [], options := Some []\<rparr>),
       (''api'', empty_profile)])"
  by (simp add: pets_then_api_def petstore_profile_def empty_profile_def demo_platform_def eval_defs)

text \<open>
  C3. The configuration \<open>{pets: {file: "petstore.json", ...}, api: {}}\<close>: the profile
  \<open>api\<close> has neither \<open>file\<close> nor \<open>url\<close>. The loop reads the file of \<open>pets\<close>,
  issues nothing for \<open>api\<close> and throws there; the value thrown is
  \<open>ReferenceError: profileKey is not defined\<close>, not an error that says which
  configuration rule the profile breaks. The profile \<open>api\<close> alone throws the same
  value with no event at all.
\<close>

theorem missing_source_throws_ReferenceError:
  "processInputs demo_platform pets_then_api =
     ([CliInfo ''[pets] Input swagger file : /work/petstore.json'',
       FsReadFile ''/work/petstore.json'' validated_petstore ''pets''],
      Threw (ReferenceError ''profileKey is not defined''),
      [(''pets'', validated_petstore), (''api'', empty_profile)]) \<and>
   processInputs demo_platform [(''api'', empty_profile)] =
     ([], Threw (ReferenceError ''profileKey is not defined''), [(''api'', empty_profile)]) \<and>
   requests (fst (processInputs demo_platform pets_then_api)) = [(''pets'', validated_petstore)]"
proof -
  have a: "processInputs demo_platform pets_then_api =
     ([CliInfo ''[pets] Input swagger file : /work/petstore.json'',
       FsReadFile ''/work/petstore.json'' validated_petstore ''pets''],
      Threw (ReferenceError ''profileKey is not defined''),
      [(''pets'', validated_petstore), (''api'', empty_profile)])"
    unfolding validated_petstore_def by (rule pets_then_api_run)
  have h: "\<not> truthy (file empty_profile)" "\<not> truthy (url empty_profile)" "\<not> skip empty_profile"
    by (simp_all add: empty_profile_def truthy_def)
  from missing_source_no_io [OF h(1,2), of demo_platform "''api''" "[]", THEN conjunct2, THEN conjunct1,
      THEN mp, OF h(3)]
  have b: "processInputs demo_platform [(''api'', empty_profile)] =
     ([], Threw (ReferenceError ''profileKey is not defined''), [(''api'', empty_profile)])" .
  have c: "requests (fst (processInputs demo_platform pets_then_api)) = [(''pets'', validated_petstore)]"
    unfolding a by simp
  from a b c show ?thesis by (intro conjI)
qed

section \<open>Reserved generator names\<close>

text \<open>What the pattern accepts: a non-empty run of class characters followed by
  \<open>-language\<close> in any letter case, and nothing else.\<close>

lemma match_plus_iff:
  "match_plus cls k s \<longleftrightarrow> (\<exists>pre rest. s = pre @ rest \<and> pre \<noteq> [] \<and> list_all cls pre \<and> k rest)"
proof (induction s)
  case Nil
  then show ?case by simp
next
  case (Cons c cs)
  show ?case
  proof
    assume "match_plus cls k (c # cs)"
    then have c: "cls c" and d: "match_plus cls k cs \<or> k cs" by auto
    from d show "\<exists>pre rest. c # cs = pre @ rest \<and> pre \<noteq> [] \<and> list_all cls pre \<and> k rest"
    proof
      assume "match_plus cls k cs"
      then obtain pre rest where "cs = pre @ rest" "pre \<noteq> []" "list_all cls pre" "k rest"
        using Cons.IH by blast
      then have "c # cs = (c # pre) @ rest \<and> c # pre \<noteq> [] \<and> list_all cls (c # pre) \<and> k rest"
        using c by simp
      then show ?thesis by blast
    next
      assume "k cs"
      then have "c # cs = [c] @ cs \<and> [c] \<noteq> [] \<and> list_all cls [c] \<and> k cs"
        using c by simp
      then show ?thesis by blast
    qed
  next
    assume "\<exists>pre rest. c # cs = pre @ rest \<and> pre \<noteq> [] \<and> list_all cls pre \<and> k rest"
    then obtain pre rest where h: "c # cs = pre @ rest" "pre \<noteq> []" "list_all cls pre" "k rest"
      by blast
    then obtain pre' where p: "pre = c # pre'" by (cases pre) auto
    with h have cs: "cs = pre' @ rest" and c: "cls c" and a: "list_all cls pre'" by auto
    show "match_plus cls k (c # cs)"
    proof (cases "pre' = []")
      case True
      with cs h c show ?thesis by simp
    next
      case False
      with cs a h(4) have "match_plus cls k cs" using Cons.IH by blast
      with c show ?thesis by simp
    qed
  qed
qed

lemma toLowerCase_language: "toLowerCase ''-language'' = ''-language''"
  by (simp add: toLowerCase_def lower_char_def is_upper_def)

lemma language_pattern_iff:
  "language_pattern g \<longleftrightarrow>
     (\<exists>ident suffix. g = ident @ suffix \<and> ident \<noteq> [] \<and> list_all word_or_hyphen ident \<and>
        toLowerCase suffix = ''-language'')"
  unfolding language_pattern_def match_plus_iff match_literal_ci_end_def toLowerCase_language ..

lemma reserved_fails:
  assumes "generator p = Some g" "toLowerCase g = ''core'' \<or> language_pattern g"
  shows "fst (verifyProfile p) \<noteq> Returned ()"
  using assms by (auto simp: verifyProfile_def interpolate_def)

text \<open>
  C4. A profile whose generator is \<open>core\<close> in any letter case, or an identifier of
  \<open>[\w\-]\<close> characters followed by \<open>-language\<close> in any letter case, fails
  validation and is left as it was; when the loop reaches it, the loop throws without an
  event for it; in a configuration no URL is fetched and no file is read for its key,
  and no callback, hence no generator resolution, runs for it, in whatever order the
  requests complete.
\<close>

theorem reserved_generator_fails_validation:
  assumes "generator p = Some g"
    and "toLowerCase g = ''core'' \<or>
         (\<exists>ident suffix. g = ident @ suffix \<and> ident \<noteq> [] \<and> list_all word_or_hyphen ident \<and>
            toLowerCase suffix = ''-language'')"
  shows "(\<exists>e. verifyProfile p = (Threw e, p)) \<and>
         (\<not> skip p \<longrightarrow> (\<exists>e. processInputs plat ((k, p) # rest) = ([], Threw e, (k, p) # rest))) \<and>
         (distinct (map fst cfg) \<and> (k, p) \<in> set cfg \<longrightarrow>
            k \<notin> fst ` set (fetches (fst (processInputs plat cfg))) \<and>
            k \<notin> fst ` set (reads (fst (processInputs plat cfg))) \<and>
            k \<notin> fst ` set (callbacks plat (fst (processInputs plat cfg)))) \<and>
         (distinct (map fst cfg) \<and> (k, p) \<in> set cfg \<and>
          set order \<subseteq> set (fst (processInputs plat cfg)) \<longrightarrow>
            k \<notin> fst ` set (callbacks plat order))"
proof -
  from assms have bad: "fst (verifyProfile p) \<noteq> Returned ()"
    using reserved_fails language_pattern_iff by blast
  then obtain e where e: "verifyProfile p = (Threw e, p)"
    using verifyProfile_fails by blast
  have two: "\<not> skip p \<longrightarrow> (\<exists>e. processInputs plat ((k, p) # rest) = ([], Threw e, (k, p) # rest))"
    using processInputs_invalid [OF _ e] by blast
  have three: "k \<notin> fst ` set (fetches (fst (processInputs plat cfg))) \<and>
            k \<notin> fst ` set (reads (fst (processInputs plat cfg))) \<and>
            k \<notin> fst ` set (callbacks plat (fst (processInputs plat cfg)))"
    if a: "distinct (map fst cfg) \<and> (k, p) \<in> set cfg"
  proof -
    from a have n: "k \<notin> fst ` set (requests (fst (processInputs plat cfg)))"
      using no_request bad by blast
    with fetches_requests [of "fst (processInputs plat cfg)"]
      reads_requests [of "fst (processInputs plat cfg)"]
      callbacks_keys [OF subset_refl, of plat "fst (processInputs plat cfg)"]
    show ?thesis by auto
  qed
  have four: "k \<notin> fst ` set (callbacks plat order)"
    if a: "distinct (map fst cfg) \<and> (k, p) \<in> set cfg \<and>
          set order \<subseteq> set (fst (processInputs plat cfg))"
  proof -
    from a have n: "k \<notin> fst ` set (requests (fst (processInputs plat cfg)))"
      using no_request bad by blast
    from a have o: "set order \<subseteq> set (fst (processInputs plat cfg))" by simp
    from callbacks_keys [OF o, of plat] n show ?thesis by auto
  qed
  from e two three four show ?thesis by blast
qed

lemma pets_then_core_run:
  "fst (processInputs demo_platform pets_then_core) =
     [CliInfo ''[pets] Input swagger file : /work/petstore.json'',
       FsReadFile ''/work/petstore.json''
         (petstore_profile\<lparr>debug := Some empty_debug, transforms := Some [], options := Some []\<rparr>) ''pets'']"
  by (simp add: pets_then_core_def petstore_profile_def core_profile_def demo_platform_def eval_defs)

theorem reserved_generator_fails_validation_witness:
  "generator core_profile = Some ''core'' \<and> toLowerCase ''core'' = ''core'' \<and>
   generator language_profile = Some (''TypeScript'' @ ''-Language'') \<and>
   list_all word_or_hyphen ''TypeScript'' \<and> toLowerCase ''-Language'' = ''-language'' \<and>
   \<not> skip core_profile \<and> distinct (map fst pets_then_core) \<and>
   (''remote'', core_profile) \<in> set pets_then_core \<and>
   (\<exists>e. verifyProfile core_profile = (Threw e, core_profile)) \<and>
   (\<exists>e. verifyProfile language_profile = (Threw e, language_profile)) \<and>
   (\<exists>e. processInputs demo_platform [(''remote'', core_profile)] =
          ([], Threw e, [(''remote'', core_profile)])) \<and>
   ''remote'' \<notin> fst ` set (fetches (fst (processInputs demo_platform pets_then_core))) \<and>
   ''remote'' \<notin> fst ` set (callbacks demo_platform (fst (processInputs demo_platform pets_then_core))) \<and>
   ''remote'' \<notin> fst ` set (callbacks demo_platform (rev (fst (processInputs demo_platform pets_then_core)))) \<and>
   reads (fst (processInputs demo_platform pets_then_core)) = [(''pets'', ''/work/petstore.json'')]"
proof -
  have g1: "generator core_profile = Some ''core''" and s: "\<not> skip core_profile"
    by (simp_all add: core_profile_def)
  have l1: "toLowerCase ''core'' = ''core''"
    by (simp add: toLowerCase_def lower_char_def is_upper_def)
  have g2: "generator language_profile = Some (''TypeScript'' @ ''-Language'')"
    by (simp add: language_profile_def)
  have l2: "list_all word_or_hyphen ''TypeScript''" "toLowerCase ''-Language'' = ''-language''"
    by (simp_all add: toLowerCase_def lower_char_def is_upper_def word_or_hyphen_def is_lower_def)
  have c: "distinct (map fst pets_then_core)" "(''remote'', core_profile) \<in> set pets_then_core"
    by (simp_all add: pets_then_core_def)
  have r: "reads (fst (processInputs demo_platform pets_then_core)) = [(''pets'', ''/work/petstore.json'')]"
    by (simp add: pets_then_core_run)
  have h2: "toLowerCase (''TypeScript'' @ ''-Language'') = ''core'' \<or>
         (\<exists>ident suffix. ''TypeScript'' @ ''-Language'' = ident @ suffix \<and> ident \<noteq> [] \<and>
            list_all word_or_hyphen ident \<and> toLowerCase suffix = ''-language'')"
    using l2 by blast
  have o: "set (rev (fst (processInputs demo_platform pets_then_core))) \<subseteq>
           set (fst (processInputs demo_platform pets_then_core))" by simp
  from reserved_generator_fails_validation [OF g1, of demo_platform "''remote''" "[]" pets_then_core
      "rev (fst (processInputs demo_platform pets_then_core))"] l1
  have a: "(\<exists>e. verifyProfile core_profile = (Threw e, core_profile))"
    "(\<exists>e. processInputs demo_platform [(''remote'', core_profile)] =
          ([], Threw e, [(''remote'', core_profile)]))"
    "''remote'' \<notin> fst ` set (fetches (fst (processInputs demo_platform pets_then_core)))"
    "''remote'' \<notin> fst ` set (callbacks demo_platform (fst (processInputs demo_platform pets_then_core)))"
    "''remote'' \<notin> fst ` set (callbacks demo_platform (rev (fst (processInputs demo_platform pets_then_core))))"
    using s c o by blast+
  from reserved_generator_fails_validation [OF g2 h2]
  have b: "\<exists>e. verifyProfile language_profile = (Threw e, language_profile)" by blast
  from g1 l1 g2 l2 s c a b r show ?thesis by blast
qed

section \<open>Skipped profiles\<close>

lemma processInputs_Cons:
  "processInputs plat ((k, p) # rest) =
     (case processInputs plat [(k, p)] of
        (e1, Threw e, c1) \<Rightarrow> (e1, Threw e, c1 @ rest)
      | (e1, Returned u, c1) \<Rightarrow>
          (case processInputs plat rest of (e2, r, c2) \<Rightarrow> (e1 @ e2, r, c1 @ c2)))"
  by (simp split: prod.splits outcome.splits)

lemma processInputs_append:
  "processInputs plat (c1 @ c2) =
     (case processInputs plat c1 of
        (e1, Threw e, c1') \<Rightarrow> (e1, Threw e, c1' @ c2)
      | (e1, Returned u, c1') \<Rightarrow>
          (case processInputs plat c2 of (e2, r, c2') \<Rightarrow> (e1 @ e2, r, c1' @ c2')))"
proof (induction c1)
  case Nil
  show ?case by (simp split: prod.splits)
next
  case (Cons kp c1)
  obtain k p where kp: "kp = (k, p)" by (cases kp)
  obtain e1 r1 d1 where one: "processInputs plat [(k, p)] = (e1, r1, d1)"
    by (cases "processInputs plat [(k, p)]")
  obtain e2 r2 d2 where two: "processInputs plat c1 = (e2, r2, d2)"
    by (cases "processInputs plat c1")
  obtain e3 r3 d3 where three: "processInputs plat c2 = (e3, r3, d3)"
    by (cases "processInputs plat c2")
  have a: "processInputs plat ((k, p) # c1 @ c2) =
     (case processInputs plat [(k, p)] of
        (e1, Threw e, c1') \<Rightarrow> (e1, Threw e, c1' @ c1 @ c2)
      | (e1, Returned u, c1') \<Rightarrow>
          (case processInputs plat (c1 @ c2) of (e2, r, c2') \<Rightarrow> (e1 @ e2, r, c1' @ c2')))"
    by (rule processInputs_Cons)
  have b: "processInputs plat ((k, p) # c1) =
     (case processInputs plat [(k, p)] of
        (e1, Threw e, c1') \<Rightarrow> (e1, Threw e, c1' @ c1)
      | (e1, Returned u, c1') \<Rightarrow>
          (case processInputs plat c1 of (e2, r, c2') \<Rightarrow> (e1 @ e2, r, c1' @ c2')))"
    by (rule processInputs_Cons)
  show ?case
    unfolding kp append_Cons a b Cons.IH one two three
    by (cases r1; cases r2) simp_all
qed

lemma processInputs_single: "\<exists>evs r p'. processInputs plat [(k, p)] = (evs, r, [(k, p')])"
  by (simp split: prod.splits outcome.splits)

lemma processInputs_length: "length (snd (snd (processInputs plat cfg))) = length cfg"
proof (induction cfg)
  case Nil
  show ?case by simp
next
  case (Cons kp cfg)
  obtain k p where kp: "kp = (k, p)" by (cases kp)
  obtain e1 r1 p' where one: "processInputs plat [(k, p)] = (e1, r1, [(k, p')])"
    using processInputs_single by blast
  obtain e2 r2 d2 where two: "processInputs plat cfg = (e2, r2, d2)"
    by (cases "processInputs plat cfg")
  from Cons.IH two have len: "length d2 = length cfg" by simp
  show ?case
    unfolding kp processInputs_Cons [of plat k p cfg] one two
    by (cases r1) (simp_all add: len)
qed

text \<open>
  C5. A profile with \<open>skip\<close> set is passed over: the events and the result of the loop
  are those of the configuration without it, so nothing is validated, read or fetched
  for it and the other profiles are processed as they are without it; and the profile
  object is in the resulting configuration as it was, with no default filled in.
\<close>

theorem skip_omits_profile:
  assumes "skip p"
  shows "processInputs plat (c1 @ (k, p) # c2) =
     (case processInputs plat (c1 @ c2) of
        (evs, r, cfg') \<Rightarrow> (evs, r, take (length c1) cfg' @ (k, p) # drop (length c1) cfg'))"
proof -
  obtain e1 r1 d1 where one: "processInputs plat c1 = (e1, r1, d1)"
    by (cases "processInputs plat c1")
  obtain e2 r2 d2 where two: "processInputs plat c2 = (e2, r2, d2)"
    by (cases "processInputs plat c2")
  from processInputs_length [of plat c1] one have len: "length d1 = length c1" by simp
  from assms two have three: "processInputs plat ((k, p) # c2) = (e2, r2, (k, p) # d2)"
    by simp
  show ?thesis
    unfolding processInputs_append [of plat c1 "(k, p) # c2"] processInputs_append [of plat c1 c2]
      one two three
    by (cases r1) (simp_all add: len)
qed

theorem skip_omits_profile_witness:
  "skip skipped_profile \<and>
   processInputs demo_platform ([(''pets'', petstore_profile)] @ (''draft'', skipped_profile) # [(''api'', empty_profile)]) =
     (fst (processInputs demo_platform pets_then_api),
      Threw (ReferenceError ''profileKey is not defined''),
      [(''pets'', snd (verifyProfile petstore_profile)), (''draft'', skipped_profile), (''api'', empty_profile)]) \<and>
   requests (fst (processInputs demo_platform pets_then_api)) =
     [(''pets'', snd (verifyProfile petstore_profile))]"
proof -
  have s: "skip skipped_profile" by (simp add: skipped_profile_def)
  have v: "snd (verifyProfile petstore_profile) =
     petstore_profile\<lparr>debug := Some empty_debug, transforms := Some [], options := Some []\<rparr>"
    by (simp add: petstore_profile_def eval_defs)
  have c: "[(''pets'', petstore_profile)] @ [(''api'', empty_profile)] = pets_then_api"
    by (simp add: pets_then_api_def)
  from skip_omits_profile [OF s, of demo_platform "[(''pets'', petstore_profile)]" "''draft''"
      "[(''api'', empty_profile)]"]
  have "processInputs demo_platform ([(''pets'', petstore_profile)] @ (''draft'', skipped_profile) # [(''api'', empty_profile)]) =
     (fst (processInputs demo_platform pets_then_api),
      Threw (ReferenceError ''profileKey is not defined''),
      [(''pets'', snd (verifyProfile petstore_profile)), (''draft'', skipped_profile), (''api'', empty_profile)])"
    unfolding c pets_then_api_run v by simp
  moreover have "requests (fst (processInputs demo_platform pets_then_api)) =
     [(''pets'', snd (verifyProfile petstore_profile))]"
    unfolding pets_then_api_run v by simp
  ultimately show ?thesis using s by blast
qed

section \<open>File before URL\<close>

lemma fetches_dispatch:
  "fetches (dispatch plat k q) =
     (if truthy (file q) then [] else case url q of None \<Rightarrow> [] | Some u \<Rightarrow> [(k, u)])"
  by (simp add: dispatch_cases truthy_def split: option.splits list.splits)

lemma fetches_processInputs:
  assumes "(k, u) \<in> set (fetches (fst (processInputs plat cfg)))"
  shows "\<exists>p. (k, p) \<in> set cfg \<and> \<not> truthy (file p)"
proof -
  have "\<exists>p. (k, p) \<in> set xs \<and> \<not> truthy (file (snd (verifyProfile p)))"
    if "(k, u) \<in> set (fetches (concat (map (\<lambda>(k, p). dispatch plat k (snd (verifyProfile p))) xs)))"
    for xs
    using that
  proof (induction xs)
    case Nil
    then show ?case by simp
  next
    case (Cons x xs)
    obtain k' p' where x: "x = (k', p')" by (cases x)
    from Cons.prems have "(k, u) \<in> set (fetches (dispatch plat k' (snd (verifyProfile p')))) \<or>
      (k, u) \<in> set (fetches (concat (map (\<lambda>(k, p). dispatch plat k (snd (verifyProfile p))) xs)))"
      by (simp add: x fetches_append)
    then show ?case
    proof
      assume "(k, u) \<in> set (fetches (dispatch plat k' (snd (verifyProfile p'))))"
      then have "k = k' \<and> \<not> truthy (file (snd (verifyProfile p')))"
        by (auto simp: fetches_dispatch split: if_splits option.splits)
      then show ?thesis by (auto simp: x)
    next
      assume "(k, u) \<in> set (fetches (concat (map (\<lambda>(k, p). dispatch plat k (snd (verifyProfile p))) xs)))"
      from Cons.IH [OF this] show ?thesis by auto
    qed
  qed
  from this [of "reached cfg"] assms
  obtain p where p: "(k, p) \<in> set (reached cfg)" "\<not> truthy (file (snd (verifyProfile p)))"
    by (auto simp: processInputs_events)
  from reached_subset [OF p(1)] have m: "(k, p) \<in> set cfg" and v: "fst (verifyProfile p) = Returned ()"
    by simp_all
  from v have "verifyProfile p = (Returned (), snd (verifyProfile p))" by (simp add: prod_eq_iff)
  from verifyProfile_source(1) [OF this] p(2) have "\<not> truthy (file p)" by simp
  with m show ?thesis by blast
qed

text \<open>
  C8. A profile that passes validation and has both \<open>file\<close> and \<open>url\<close> set (each a
  non-empty string): when the loop reaches it, the file is read; in a configuration no
  fetch is issued for its key; and no callback issues a fetch, in whatever order the
  requests complete, so a failed read does not fall back to the URL.
\<close>

theorem file_takes_precedence:
  assumes "file p = Some f" and "f \<noteq> []" and "truthy (url p)"
    and "fst (verifyProfile p) = Returned ()"
  shows "(\<not> skip p \<longrightarrow>
            processInputs plat ((k, p) # rest) =
              (case processInputs plat rest of (evs, r, rest') \<Rightarrow>
                 (CliInfo (''['' @ k @ ''] Input swagger file : '' @ path_resolve plat (currentDir plat) f) #
                  FsReadFile (path_resolve plat (currentDir plat) f) (snd (verifyProfile p)) k # evs,
                  r, (k, snd (verifyProfile p)) # rest'))) \<and>
         (distinct (map fst cfg) \<and> (k, p) \<in> set cfg \<longrightarrow>
            k \<notin> fst ` set (fetches (fst (processInputs plat cfg)))) \<and>
         (\<forall>(k', evs, r) \<in> set (callbacks plat (fst (processInputs plat cfg))). fetches evs = []) \<and>
         (\<forall>(k', evs, r) \<in> set (callbacks plat order). fetches evs = [])"
proof -
  from assms(4) have vp: "verifyProfile p = (Returned (), snd (verifyProfile p))"
    by (simp add: prod_eq_iff)
  from verifyProfile_source(1) [OF vp] assms(1) have fq: "file (snd (verifyProfile p)) = Some f"
    by simp
  have one: "\<not> skip p \<longrightarrow>
            processInputs plat ((k, p) # rest) =
              (case processInputs plat rest of (evs, r, rest') \<Rightarrow>
                 (CliInfo (''['' @ k @ ''] Input swagger file : '' @ path_resolve plat (currentDir plat) f) #
                  FsReadFile (path_resolve plat (currentDir plat) f) (snd (verifyProfile p)) k # evs,
                  r, (k, snd (verifyProfile p)) # rest'))"
  proof
    assume "\<not> skip p"
    from processInputs_file [OF this vp fq assms(2)]
    show "processInputs plat ((k, p) # rest) =
              (case processInputs plat rest of (evs, r, rest') \<Rightarrow>
                 (CliInfo (''['' @ k @ ''] Input swagger file : '' @ path_resolve plat (currentDir plat) f) #
                  FsReadFile (path_resolve plat (currentDir plat) f) (snd (verifyProfile p)) k # evs,
                  r, (k, snd (verifyProfile p)) # rest'))" .
  qed
  have two: "k \<notin> fst ` set (fetches (fst (processInputs plat cfg)))"
    if a: "distinct (map fst cfg) \<and> (k, p) \<in> set cfg"
  proof
    assume "k \<in> fst ` set (fetches (fst (processInputs plat cfg)))"
    then obtain u where "(k, u) \<in> set (fetches (fst (processInputs plat cfg)))" by auto
    from fetches_processInputs [OF this] obtain p' where p': "(k, p') \<in> set cfg" "\<not> truthy (file p')"
      by blast
    from a have "distinct (map fst cfg)" "(k, p) \<in> set cfg" by simp_all
    from distinct_keys [OF this p'(1)] have "p' = p" .
    with p'(2) assms(1,2) show False by (simp add: truthy_def)
  qed
  have three: "\<forall>(k', evs, r) \<in> set (callbacks plat (fst (processInputs plat cfg))). fetches evs = []"
  proof (clarify)
    fix k' evs r
    assume "(k', evs, r) \<in> set (callbacks plat (fst (processInputs plat cfg)))"
    from callback_no_requests [OF this] show "fetches evs = []"
      by (simp add: requests_Nil_fetches)
  qed
  have two': "distinct (map fst cfg) \<and> (k, p) \<in> set cfg \<longrightarrow>
            k \<notin> fst ` set (fetches (fst (processInputs plat cfg)))"
    by (rule impI) (rule two)
  have four: "\<forall>(k', evs, r) \<in> set (callbacks plat order). fetches evs = []"
  proof (clarify)
    fix k' evs r
    assume "(k', evs, r) \<in> set (callbacks plat order)"
    from callback_no_requests [OF this] show "fetches evs = []"
      by (simp add: requests_Nil_fetches)
  qed
  from one two' three four show ?thesis by (intro conjI)
qed

theorem file_takes_precedence_witness:
  "file both_profile = Some ''petstore.json'' \<and> truthy (url both_profile) \<and>
   fst (verifyProfile both_profile) = Returned () \<and> \<not> skip both_profile \<and>
   reads (fst (processInputs demo_platform [(''both'', both_profile)])) =
     [(''both'', ''/work/petstore.json'')] \<and>
   fetches (fst (processInputs demo_platform [(''both'', both_profile)])) = [] \<and>
   map (\<lambda>(k', evs, r). (k', fetches evs))
     (callbacks demo_platform (fst (processInputs demo_platform [(''both'', both_profile)]))) =
     [(''both'', [])] \<and>
   map (\<lambda>(k', evs, r). (k', fetches evs))
     (callbacks demo_platform (rev (fst (processInputs demo_platform [(''both'', both_profile)])))) =
     [(''both'', [])]"
proof -
  have f: "file both_profile = Some ''petstore.json''" and n: "''petstore.json'' \<noteq> []"
    and u: "truthy (url both_profile)" and s: "\<not> skip both_profile"
    by (simp_all add: both_profile_def truthy_def)
  have v: "fst (verifyProfile both_profile) = Returned ()"
    by (simp add: both_profile_def eval_defs)
  note t = file_takes_precedence [OF f n u v, of demo_platform "''both''" "[]" "[(''both'', both_profile)]"
      "rev (fst (processInputs demo_platform [(''both'', both_profile)]))"]
  from t [THEN conjunct1] s have run: "processInputs demo_platform [(''both'', both_profile)] =
     ([CliInfo (''['' @ ''both'' @ ''] Input swagger file : '' @
          path_resolve demo_platform (currentDir demo_platform) ''petstore.json''),
       FsReadFile (path_resolve demo_platform (currentDir demo_platform) ''petstore.json'')
         (snd (verifyProfile both_profile)) ''both''],
      Returned (), [(''both'', snd (verifyProfile both_profile))])"
    by simp
  have path: "path_resolve demo_platform (currentDir demo_platform) ''petstore.json'' = ''/work/petstore.json''"
    by (simp add: demo_platform_def posix_resolve_def)
  have a: "reads (fst (processInputs demo_platform [(''both'', both_profile)])) =
     [(''both'', ''/work/petstore.json'')]"
    "fetches (fst (processInputs demo_platform [(''both'', both_profile)])) = []"
    unfolding run path by simp_all
  obtain es r where cbk: "callback demo_platform
        (FsReadFile (path_resolve demo_platform (currentDir demo_platform) ''petstore.json'')
           (snd (verifyProfile both_profile)) ''both'') = Some (''both'', es, r)"
    by (cases "readFile_callback demo_platform
        (readFile demo_platform (path_resolve demo_platform (currentDir demo_platform) ''petstore.json''))
        (snd (verifyProfile both_profile)) ''both''") simp
  have cb: "callbacks demo_platform (fst (processInputs demo_platform [(''both'', both_profile)])) =
      [(''both'', es, r)]"
    unfolding run using cbk by (cases r) simp_all
  have cb': "callbacks demo_platform (rev (fst (processInputs demo_platform [(''both'', both_profile)]))) =
      [(''both'', es, r)]"
    unfolding run using cbk by (cases r) simp_all
  from t [THEN conjunct2, THEN conjunct2, THEN conjunct1]
  have b: "\<forall>(k', evs, r) \<in> set (callbacks demo_platform (fst (processInputs demo_platform [(''both'', both_profile)]))).
      fetches evs = []" .
  from t [THEN conjunct2, THEN conjunct2, THEN conjunct2]
  have b': "\<forall>(k', evs, r) \<in> set (callbacks demo_platform
        (rev (fst (processInputs demo_platform [(''both'', both_profile)])))). fetches evs = []" .
  from b have e: "fetches es = []" unfolding cb by simp
  from b' have "fetches es = []" unfolding cb' by simp
  then have c': "map (\<lambda>(k', evs, r). (k', fetches evs))
     (callbacks demo_platform (rev (fst (processInputs demo_platform [(''both'', both_profile)])))) =
     [(''both'', [])]"
    unfolding cb' by simp
  from e have c: "map (\<lambda>(k', evs, r). (k', fetches evs))
     (callbacks demo_platform (fst (processInputs demo_platform [(''both'', both_profile)]))) =
     [(''both'', [])]"
    unfolding cb by simp
  from f u v s a c c' show ?thesis by (intro conjI)
qed

section \<open>Properties of handleSwagger\<close>

lemma catch_parse_shape:
  "\<exists>details. catch_parse e k = CliError (''Invalid swagger source for profile '' @ squote k @ ''.'') # details \<and>
     (\<forall>ev \<in> set details. \<exists>m. ev = CliError m) \<and>
     (\<forall>lineNumber message. e = SyntaxError lineNumber message \<longrightarrow>
        details =
          (case lineNumber of
             None \<Rightarrow> []
           | Some n \<Rightarrow> if n \<noteq> 0 then [CliError (''At line number '' @ show_nat n @ ''.'')] else []) @
          (if message \<noteq> [] then [CliError message] else []))"
  by (cases e) (auto simp: catch_parse_def truthy_num_def split: option.splits)

lemma handleSwagger_parse_failure:
  "JSON_parse plat s = Threw e \<Longrightarrow> handleSwagger plat (Text s) p k = (catch_parse e k, Returned ())"
  by (simp add: handleSwagger_def parse_if_string_def)

text \<open>
  C7. A document that is a string and that \<open>JSON.parse\<close> rejects: \<open>handleSwagger\<close>
  logs the line naming the profile key, then only further error lines, which for a
  \<open>SyntaxError\<close> are the line number when the error has one (a truthy
  \<open>lineNumber\<close>) and the message when it is not empty; it normalizes nothing, loads no
  generator, generates nothing and writes no file; and it returns, so that no exception
  leaves the profile's callback. The callbacks of \<open>fs.readFile\<close> and of the HTTP client
  hand a string to \<open>handleSwagger\<close> as it is.
\<close>

theorem invalid_json_aborts_profile:
  fixes plat :: "('j, 'd) platform"
  assumes "JSON_parse plat s = Threw e"
  shows "(\<exists>details.
            handleSwagger plat (Text s) p k =
              (CliError (''Invalid swagger source for profile '' @ squote k @ ''.'') # details,
               Returned ()) \<and>
            (\<forall>ev \<in> set details. \<exists>m. ev = CliError m) \<and>
            (\<forall>lineNumber message. e = SyntaxError lineNumber message \<longrightarrow>
               details =
                 (case lineNumber of
                    None \<Rightarrow> []
                  | Some n \<Rightarrow>
                      if n \<noteq> 0 then [CliError (''At line number '' @ show_nat n @ ''.'')] else []) @
                 (if message \<noteq> [] then [CliError message] else []))) \<and>
         readFile_callback plat (Inr s) p k = handleSwagger plat (Text s) p k \<and>
         needle_callback plat (Inr (Text s)) p k = handleSwagger plat (Text s) p k"
proof -
  from catch_parse_shape [of e k] obtain details :: "('j, 'd) event list" where
    d: "catch_parse e k = CliError (''Invalid swagger source for profile '' @ squote k @ ''.'') # details"
      "\<forall>ev \<in> set details. \<exists>m. ev = CliError m"
      "\<forall>lineNumber message. e = SyntaxError lineNumber message \<longrightarrow>
        details =
          (case lineNumber of
             None \<Rightarrow> []
           | Some n \<Rightarrow> if n \<noteq> 0 then [CliError (''At line number '' @ show_nat n @ ''.'')] else []) @
          (if message \<noteq> [] then [CliError message] else [])"
    by (elim exE conjE)
  have h: "handleSwagger plat (Text s) p k =
              (CliError (''Invalid swagger source for profile '' @ squote k @ ''.'') # details,
               Returned ())"
    unfolding handleSwagger_parse_failure [OF assms] d(1) ..
  have one: "\<exists>details.
            handleSwagger plat (Text s) p k =
              (CliError (''Invalid swagger source for profile '' @ squote k @ ''.'') # details,
               Returned ()) \<and>
            (\<forall>ev \<in> set details. \<exists>m. ev = CliError m) \<and>
            (\<forall>lineNumber message. e = SyntaxError lineNumber message \<longrightarrow>
               details =
                 (case lineNumber of
                    None \<Rightarrow> []
                  | Some n \<Rightarrow>
                      if n \<noteq> 0 then [CliError (''At line number '' @ show_nat n @ ''.'')] else []) @
                 (if message \<noteq> [] then [CliError message] else []))"
    by (rule exI [of _ details]) (intro conjI h d(2) d(3))
  have two: "readFile_callback plat (Inr s) p k = handleSwagger plat (Text s) p k"
    by (simp add: readFile_callback_def)
  have three: "needle_callback plat (Inr (Text s)) p k = handleSwagger plat (Text s) p k"
    by (simp add: needle_callback_def)
  from one two three show ?thesis by (intro conjI)
qed

theorem invalid_json_aborts_profile_witness:
  "JSON_parse demo_platform ''{,}'' = Threw (SyntaxError (Some 1) ''Unexpected token ,'') \<and>
   handleSwagger demo_platform (Text ''{,}'') petstore_profile ''pets'' =
     ([CliError (''Invalid swagger source for profile '' @ squote ''pets'' @ ''.''),
       CliError ''At line number 1.'',
       CliError ''Unexpected token ,''], Returned ())"
proof -
  have j: "JSON_parse demo_platform ''{,}'' = Threw (SyntaxError (Some 1) ''Unexpected token ,'')"
    by (simp add: demo_platform_def)
  from invalid_json_aborts_profile [OF j, of petstore_profile "''pets''"]
  obtain details where
    h: "handleSwagger demo_platform (Text ''{,}'') petstore_profile ''pets'' =
              (CliError (''Invalid swagger source for profile '' @ squote ''pets'' @ ''.'') # details,
               Returned ())"
    and d: "\<forall>lineNumber message. SyntaxError (Some 1) ''Unexpected token ,'' = SyntaxError lineNumber message \<longrightarrow>
               details =
                 (case lineNumber of
                    None \<Rightarrow> []
                  | Some n \<Rightarrow>
                      if n \<noteq> 0 then [CliError (''At line number '' @ show_nat n @ ''.'')] else []) @
                 (if message \<noteq> [] then [CliError message] else [])"
    by (elim exE conjE)
  from d have "details = [CliError (''At line number '' @ show_nat 1 @ ''.''), CliError ''Unexpected token ,'']"
    by simp
  then have "details = [CliError ''At line number 1.'', CliError ''Unexpected token ,'']"
    by (simp add: show_nat.simps digit_char_def)
  with h j show ?thesis by simp
qed

section \<open>The generator's hook and entry point\<close>

lemma run_generator_hook_fails:
  "validateProfile pkg = Some hook \<Longrightarrow> hook p = (Threw e, p') \<Longrightarrow>
     run_generator plat pkg d p k = ([ValidateProfileCall p], Threw e)"
  by (simp add: run_generator_def call_validateProfile_def)

lemma run_generator_hook_passes:
  "validateProfile pkg = Some hook \<Longrightarrow> hook p = (Returned (), p1) \<Longrightarrow>
   generate pkg d p1 = (Returned out, p2) \<Longrightarrow> output p2 = Some outp \<Longrightarrow>
     run_generator plat pkg d p k =
       ([ValidateProfileCall p, GenerateCall d p1,
         FsWriteFileSync (path_resolve plat (currentDir plat) (path_resolve plat (currentDir plat) outp)) out,
         CliInfo (''['' @ k @ ''] Code generated at '' @ squote (path_resolve plat (currentDir plat) outp) @ ''.'')],
        Returned ())"
  by (simp add: run_generator_def call_validateProfile_def Let_def)

lemma run_generator_no_hook:
  "validateProfile pkg = None \<Longrightarrow>
   generate pkg d p = (Returned out, p2) \<Longrightarrow> output p2 = Some outp \<Longrightarrow>
     run_generator plat pkg d p k =
       ([GenerateCall d p,
         FsWriteFileSync (path_resolve plat (currentDir plat) (path_resolve plat (currentDir plat) outp)) out,
         CliInfo (''['' @ k @ ''] Code generated at '' @ squote (path_resolve plat (currentDir plat) outp) @ ''.'')],
        Returned ())"
  by (simp add: run_generator_def call_validateProfile_def Let_def)

lemma handleSwagger_generator:
  "parse_if_string plat doc = Returned j \<Longrightarrow> Parser_parse plat j = Returned d \<Longrightarrow>
   debug p = Some dbg \<Longrightarrow> require plat (generator_module plat p) = Returned pkg \<Longrightarrow>
     handleSwagger plat doc p k =
       (NewParser j # debug_dump plat d dbg k @ Require (generator_module plat p) #
          fst (run_generator plat pkg d p k),
        snd (run_generator plat pkg d p k))"
  by (simp add: handleSwagger_def Let_def split: prod.splits)

text \<open>
  C9. Once the generator package is loaded: if it has a \<open>validateProfile\<close> hook and
  the hook throws, the hook's call is the only event and the exception leaves
  \<open>handleSwagger\<close>, so \<open>generate\<close> is not called and nothing is written; if the hook
  returns, \<open>generate\<close> is called after it; without the hook \<open>generate\<close> is the
  first call. The text \<open>generate\<close> returns is the content written, unchanged, to the
  output path resolved against the working directory. These are the last events of
  \<open>handleSwagger\<close>, after the parser, the optional dump and \<open>require\<close>.
\<close>

theorem hook_before_generate:
  "(validateProfile pkg = Some hook \<and> hook p = (Threw e, p') \<longrightarrow>
      run_generator plat pkg d p k = ([ValidateProfileCall p], Threw e)) \<and>
   (validateProfile pkg = Some hook \<and> hook p = (Returned (), p1) \<and>
    generate pkg d p1 = (Returned out, p2) \<and> output p2 = Some outp \<longrightarrow>
      run_generator plat pkg d p k =
        ([ValidateProfileCall p, GenerateCall d p1,
          FsWriteFileSync (path_resolve plat (currentDir plat) (path_resolve plat (currentDir plat) outp)) out,
          CliInfo (''['' @ k @ ''] Code generated at '' @ squote (path_resolve plat (currentDir plat) outp) @ ''.'')],
         Returned ())) \<and>
   (validateProfile pkg = None \<and> generate pkg d p = (Returned out, p2) \<and> output p2 = Some outp \<longrightarrow>
      run_generator plat pkg d p k =
        ([GenerateCall d p,
          FsWriteFileSync (path_resolve plat (currentDir plat) (path_resolve plat (currentDir plat) outp)) out,
          CliInfo (''['' @ k @ ''] Code generated at '' @ squote (path_resolve plat (currentDir plat) outp) @ ''.'')],
         Returned ())) \<and>
   (parse_if_string plat doc = Returned j \<and> Parser_parse plat j = Returned d \<and>
    debug p = Some dbg \<and> require plat (generator_module plat p) = Returned pkg \<longrightarrow>
      handleSwagger plat doc p k =
        (NewParser j # debug_dump plat d dbg k @ Require (generator_module plat p) #
           fst (run_generator plat pkg d p k),
         snd (run_generator plat pkg d p k)))"
proof (intro conjI impI)
  assume "validateProfile pkg = Some hook \<and> hook p = (Threw e, p')"
  then show "run_generator plat pkg d p k = ([ValidateProfileCall p], Threw e)"
    using run_generator_hook_fails by (elim conjE)
next
  assume "validateProfile pkg = Some hook \<and> hook p = (Returned (), p1) \<and>
    generate pkg d p1 = (Returned out, p2) \<and> output p2 = Some outp"
  then show "run_generator plat pkg d p k =
        ([ValidateProfileCall p, GenerateCall d p1,
          FsWriteFileSync (path_resolve plat (currentDir plat) (path_resolve plat (currentDir plat) outp)) out,
          CliInfo (''['' @ k @ ''] Code generated at '' @ squote (path_resolve plat (currentDir plat) outp) @ ''.'')],
         Returned ())"
    using run_generator_hook_passes by (elim conjE)
next
  assume "validateProfile pkg = None \<and> generate pkg d p = (Returned out, p2) \<and> output p2 = Some outp"
  then show "run_generator plat pkg d p k =
        ([GenerateCall d p,
          FsWriteFileSync (path_resolve plat (currentDir plat) (path_resolve plat (currentDir plat) outp)) out,
          CliInfo (''['' @ k @ ''] Code generated at '' @ squote (path_resolve plat (currentDir plat) outp) @ ''.'')],
         Returned ())"
    using run_generator_no_hook by (elim conjE)
next
  assume "parse_if_string plat doc = Returned j \<and> Parser_parse plat j = Returned d \<and>
    debug p = Some dbg \<and> require plat (generator_module plat p) = Returned pkg"
  then show "handleSwagger plat doc p k =
        (NewParser j # debug_dump plat d dbg k @ Require (generator_module plat p) #
           fst (run_generator plat pkg d p k),
         snd (run_generator plat pkg d p k))"
    using handleSwagger_generator by (elim conjE)
qed

theorem hook_before_generate_witness:
  "run_generator demo_platform strict_pkg ''{}'' validated_petstore ''pets'' =
     ([ValidateProfileCall validated_petstore], Threw (Error ''unsupported profile'')) \<and>
   run_generator demo_platform checked_pkg ''{}'' validated_petstore ''pets'' =
     ([ValidateProfileCall validated_petstore, GenerateCall ''{}'' validated_petstore,
       FsWriteFileSync ''/work/petstore.ts'' ''// {}'',
       CliInfo (''[pets] Code generated at '' @ squote ''/work/petstore.ts'' @ ''.'')], Returned ()) \<and>
   run_generator demo_platform plain_pkg ''{}'' validated_petstore ''pets'' =
     ([GenerateCall ''{}'' validated_petstore,
       FsWriteFileSync ''/work/petstore.ts'' ''// {}'',
       CliInfo (''[pets] Code generated at '' @ squote ''/work/petstore.ts'' @ ''.'')], Returned ()) \<and>
   handleSwagger demo_platform (Text ''{}'') validated_petstore ''pets'' =
     ([NewParser ''{}'', Require ''swagen-typescript'', GenerateCall ''{}'' validated_petstore,
       FsWriteFileSync ''/work/petstore.ts'' ''// {}'',
       CliInfo (''[pets] Code generated at '' @ squote ''/work/petstore.ts'' @ ''.'')], Returned ())"
proof -
  have out: "output validated_petstore = Some ''petstore.ts''"
    and dbg: "debug validated_petstore = Some empty_debug"
    by (simp_all add: validated_petstore_def petstore_profile_def)
  have path: "path_resolve demo_platform (currentDir demo_platform) ''petstore.ts'' = ''/work/petstore.ts''"
    "path_resolve demo_platform (currentDir demo_platform) ''/work/petstore.ts'' = ''/work/petstore.ts''"
    by (simp_all add: demo_platform_def posix_resolve_def)
  have s1: "validateProfile strict_pkg = Some (\<lambda>p. (Threw (Error ''unsupported profile''), p))"
    by (simp add: strict_pkg_def)
  have c1: "validateProfile checked_pkg = Some (\<lambda>p. (Returned (), p))"
    and c2: "generate checked_pkg ''{}'' validated_petstore = (Returned ''// {}'', validated_petstore)"
    by (simp_all add: checked_pkg_def)
  have p1: "validateProfile plain_pkg = None"
    and p2: "generate plain_pkg ''{}'' validated_petstore = (Returned ''// {}'', validated_petstore)"
    by (simp_all add: plain_pkg_def)
  have h1: "parse_if_string demo_platform (Text ''{}'') = Returned ''{}''"
    and h2: "Parser_parse demo_platform ''{}'' = Returned ''{}''"
    by (simp_all add: parse_if_string_def demo_platform_def)
  have m: "generator_module demo_platform validated_petstore = ''swagen-typescript''"
    by (simp add: generator_module_def startsWith_dot_def interpolate_def validated_petstore_def
        petstore_profile_def)
  have h3: "require demo_platform (generator_module demo_platform validated_petstore) = Returned plain_pkg"
    unfolding m by (simp add: demo_platform_def)
  have dump: "debug_dump demo_platform ''{}'' empty_debug ''pets'' = []"
    by (simp add: debug_dump_def empty_debug_def truthy_def)
  note t = hook_before_generate [where plat = demo_platform and d = "''{}''" and p = validated_petstore
      and k = "''pets''"]
  from t [where pkg = strict_pkg and hook = "\<lambda>p. (Threw (Error ''unsupported profile''), p)"
      and e = "Error ''unsupported profile''" and p' = validated_petstore, THEN conjunct1] s1
  have a: "run_generator demo_platform strict_pkg ''{}'' validated_petstore ''pets'' =
     ([ValidateProfileCall validated_petstore], Threw (Error ''unsupported profile''))"
    by simp
  from t [where pkg = checked_pkg and hook = "\<lambda>p. (Returned (), p)" and ?p1.0 = validated_petstore
      and out = "''// {}''" and ?p2.0 = validated_petstore and outp = "''petstore.ts''",
      THEN conjunct2, THEN conjunct1] c1 c2 out
  have b: "run_generator demo_platform checked_pkg ''{}'' validated_petstore ''pets'' =
     ([ValidateProfileCall validated_petstore, GenerateCall ''{}'' validated_petstore,
       FsWriteFileSync ''/work/petstore.ts'' ''// {}'',
       CliInfo (''[pets] Code generated at '' @ squote ''/work/petstore.ts'' @ ''.'')], Returned ())"
    by (simp add: path)
  from t [where pkg = plain_pkg and out = "''// {}''" and ?p2.0 = validated_petstore
      and outp = "''petstore.ts''", THEN conjunct2, THEN conjunct2, THEN conjunct1] p1 p2 out
  have c: "run_generator demo_platform plain_pkg ''{}'' validated_petstore ''pets'' =
     ([GenerateCall ''{}'' validated_petstore,
       FsWriteFileSync ''/work/petstore.ts'' ''// {}'',
       CliInfo (''[pets] Code generated at '' @ squote ''/work/petstore.ts'' @ ''.'')], Returned ())"
    by (simp add: path)
  from t [where pkg = plain_pkg and doc = "Text ''{}''" and j = "''{}''" and dbg = empty_debug,
      THEN conjunct2, THEN conjunct2, THEN conjunct2] h1 h2 dbg h3
  have "handleSwagger demo_platform (Text ''{}'') validated_petstore ''pets'' =
        (NewParser ''{}'' # debug_dump demo_platform ''{}'' empty_debug ''pets'' @
           Require (generator_module demo_platform validated_petstore) #
           fst (run_generator demo_platform plain_pkg ''{}'' validated_petstore ''pets''),
         snd (run_generator demo_platform plain_pkg ''{}'' validated_petstore ''pets''))"
    by simp
  then have d: "handleSwagger demo_platform (Text ''{}'') validated_petstore ''pets'' =
     ([NewParser ''{}'', Require ''swagen-typescript'', GenerateCall ''{}'' validated_petstore,
       FsWriteFileSync ''/work/petstore.ts'' ''// {}'',
       CliInfo (''[pets] Code generated at '' @ squote ''/work/petstore.ts'' @ ''.'')], Returned ())"
    unfolding c dump m by simp
  from a b c d show ?thesis by (intro conjI)
qed

section \<open>Properties of the code assembler\<close>

lemma join_append:
  "xs \<noteq> [] \<Longrightarrow> ys \<noteq> [] \<Longrightarrow> join sep (xs @ ys) = join sep xs @ sep @ join sep ys"
proof (induction sep xs rule: join.induct)
  case (1 sep)
  then show ?case by simp
next
  case (2 sep x)
  then show ?case by (cases ys) simp_all
next
  case (3 sep x y zs)
  then show ?case by simp
qed

lemma assembled_lines_eq:
  "assembled_lines sg d =
     initial_code sg d @ concat (map (service_code sg d) (resources d)) @ [[]] @
     concat (map (model_code sg d) (models d))"
  by (simp add: assembled_lines_def generateInitialCode_def generateServices_def push_def
      generateModels_def)

text \<open>
  C6. The assembled text is the join, with the line terminator, of the boilerplate
  lines, then the service lines of the resources in resource order, then one empty
  line, then the model lines in model order: each block is a contiguous segment of the
  array, in that order. When there are model lines the text is the part up to the empty
  line, a terminator, and the joined model lines. The text is determined by the
  definition, the sub-generators and the terminator alone: the array is created by the
  call and nothing of it is kept, so that a second call gives the same text.
\<close>

theorem assembler_order:
  "(let boilerplate = initial_code sg d;
        services = concat (map (service_code sg d) (resources d));
        model_lines = concat (map (model_code sg d) (models d))
    in generator_exports sg newline d = join newline (boilerplate @ services @ [[]] @ model_lines) \<and>
       take (length boilerplate) (assembled_lines sg d) = boilerplate \<and>
       take (length services) (drop (length boilerplate) (assembled_lines sg d)) = services \<and>
       assembled_lines sg d ! (length boilerplate + length services) = [] \<and>
       drop (length boilerplate + length services + 1) (assembled_lines sg d) = model_lines \<and>
       (model_lines \<noteq> [] \<longrightarrow>
          generator_exports sg newline d =
            join newline (boilerplate @ services @ [[]]) @ newline @ join newline model_lines))"
proof -
  define boilerplate where "boilerplate = initial_code sg d"
  define services where "services = concat (map (service_code sg d) (resources d))"
  define model_lines where "model_lines = concat (map (model_code sg d) (models d))"
  have l: "assembled_lines sg d = boilerplate @ services @ [[]] @ model_lines"
    unfolding boilerplate_def services_def model_lines_def by (rule assembled_lines_eq)
  have a: "generator_exports sg newline d = join newline (boilerplate @ services @ [[]] @ model_lines)"
    by (simp add: generator_exports_def l)
  have b: "take (length boilerplate) (assembled_lines sg d) = boilerplate"
    by (simp add: l)
  have c: "take (length services) (drop (length boilerplate) (assembled_lines sg d)) = services"
    by (simp add: l)
  have e: "assembled_lines sg d ! (length boilerplate + length services) = []"
    by (simp add: l nth_append)
  have f: "drop (length boilerplate + length services + 1) (assembled_lines sg d) = model_lines"
    by (simp add: l)
  have g: "model_lines \<noteq> [] \<longrightarrow>
            generator_exports sg newline d =
              join newline (boilerplate @ services @ [[]]) @ newline @ join newline model_lines"
  proof
    assume m: "model_lines \<noteq> []"
    have "boilerplate @ services @ [[]] \<noteq> []" by simp
    from join_append [OF this m, of newline] a
    show "generator_exports sg newline d =
              join newline (boilerplate @ services @ [[]]) @ newline @ join newline model_lines"
      by simp
  qed
  from a b c e f g show ?thesis
    unfolding Let_def boilerplate_def services_def model_lines_def by (intro conjI)
qed

theorem assembler_order_witness:
  "concat (map (model_code demo_generators demo_definition) (models demo_definition)) \<noteq> [] \<and>
   generator_exports demo_generators [CHR 0x0A] demo_definition =
     join [CHR 0x0A] [''// generated'', ''service pets'', ''end'', ''service users'', ''end'', []] @
     [CHR 0x0A] @ join [CHR 0x0A] [''model Pet'', ''model User'']"
proof -
  have m: "concat (map (model_code demo_generators demo_definition) (models demo_definition)) =
      [''model Pet'', ''model User'']"
    by (simp add: demo_generators_def demo_definition_def)
  have s: "concat (map (service_code demo_generators demo_definition) (resources demo_definition)) =
      [''service pets'', ''end'', ''service users'', ''end'']"
    by (simp add: demo_generators_def demo_definition_def)
  have i: "initial_code demo_generators demo_definition = [''// generated'']"
    by (simp add: demo_generators_def)
  have ne: "concat (map (model_code demo_generators demo_definition) (models demo_definition)) \<noteq> []"
    unfolding m by simp
  from assembler_order [of demo_generators demo_definition "[CHR 0x0A]", unfolded Let_def] ne
  have "generator_exports demo_generators [CHR 0x0A] demo_definition =
     join [CHR 0x0A] (initial_code demo_generators demo_definition @
        concat (map (service_code demo_generators demo_definition) (resources demo_definition)) @ [[]]) @
     [CHR 0x0A] @
     join [CHR 0x0A] (concat (map (model_code demo_generators demo_definition) (models demo_definition)))"
    by (elim conjE impE)
  then have "generator_exports demo_generators [CHR 0x0A] demo_definition =
     join [CHR 0x0A] [''// generated'', ''service pets'', ''end'', ''service users'', ''end'', []] @
     [CHR 0x0A] @ join [CHR 0x0A] [''model Pet'', ''model User'']"
    unfolding m s i by simp
  with ne show ?thesis by (intro conjI)
qed

section \<open>Failures and their reach\<close>

lemma getConfig_configured: "getConfig (configured cfg) = Returned cfg"
  by (simp add: getConfig_def configured_def Let_def)

lemma configured_fields:
  "currentDir (configured cfg) = ''/work''" "path_resolve (configured cfg) = posix_resolve"
  by (simp_all add: configured_def demo_platform_def)

lemma api_then_pets_run:
  "processInputs (configured cfg) api_then_pets =
     ([], Threw (ReferenceError ''profileKey is not defined''), api_then_pets)"
  by (simp add: api_then_pets_def empty_profile_def verifyProfile_def truthy_def new_Error_def
      profileKey_in_verifyProfile_def)

lemma pets_alone_run:
  "processInputs (configured cfg) [(''pets'', petstore_profile)] =
     ([CliInfo ''[pets] Input swagger file : /work/petstore.json'',
       FsReadFile ''/work/petstore.json'' validated_petstore ''pets''],
      Returned (), [(''pets'', validated_petstore)])"
  by (simp add: petstore_profile_def validated_petstore_def configured_fields eval_defs)

lemma processInputs_events_append:
  assumes "fst (snd (processInputs plat c1)) = Returned ()"
  shows "fst (processInputs plat (c1 @ c2)) = fst (processInputs plat c1) @ fst (processInputs plat c2)"
proof -
  obtain e1 r1 d1 where one: "processInputs plat c1 = (e1, r1, d1)"
    by (cases "processInputs plat c1")
  obtain e2 r2 d2 where two: "processInputs plat c2 = (e2, r2, d2)"
    by (cases "processInputs plat c2")
  from assms one have r1: "r1 = Returned ()" by simp
  show ?thesis unfolding processInputs_append [of plat c1 c2] one two r1 by simp
qed

lemma processInputs_valid_events:
  assumes "\<not> skip p" "fst (verifyProfile p) = Returned ()"
  shows "fst (processInputs plat ((k, p) # rest)) =
           dispatch plat k (snd (verifyProfile p)) @ fst (processInputs plat rest)"
  unfolding processInputs_events reached_valid [OF assms] by simp

lemma callbacks_with_returning:
  assumes "callback plat req = Some (k, es, Returned ())"
  shows "callbacks plat (xs @ req # ys) =
           callbacks plat xs @
           (if completed (callbacks plat xs) then (k, es, Returned ()) # callbacks plat ys else [])"
  unfolding callbacks_append [of plat xs "req # ys"] callbacks_Returned [OF assms] ..

lemma callbacks_with_throwing:
  assumes "callback plat req = Some (k, es, Threw e)"
  shows "callbacks plat (xs @ req # ys) =
           callbacks plat xs @ (if completed (callbacks plat xs) then [(k, es, Threw e)] else [])"
  unfolding callbacks_append [of plat xs "req # ys"] callbacks_Threw [OF assms] ..

lemma sync_isolated:
  assumes "\<not> skip p" "fst (verifyProfile p) = Returned ()"
    "fst (snd (processInputs plat c1)) = Returned ()"
  shows "fst (processInputs plat (c1 @ (k, p) # c2)) =
           fst (processInputs plat c1) @ dispatch plat k (snd (verifyProfile p)) @
           fst (processInputs plat c2) \<and>
         fst (processInputs plat (c1 @ c2)) =
           fst (processInputs plat c1) @ fst (processInputs plat c2)"
  unfolding processInputs_events_append [OF assms(3)] processInputs_valid_events [OF assms(1,2)]
  by simp

lemma run_generator_hooked_generate_throws:
  "validateProfile pkg = Some hook \<Longrightarrow> hook p = (Returned (), p1) \<Longrightarrow>
   generate pkg d p1 = (Threw e, p2) \<Longrightarrow>
     run_generator plat pkg d p k = ([ValidateProfileCall p, GenerateCall d p1], Threw e)"
  by (simp add: run_generator_def call_validateProfile_def)

lemma validation_failure_stops_loop:
  assumes "\<not> skip p" "fst (verifyProfile p) = Threw e"
    "fst (snd (processInputs plat c1)) = Returned ()"
  shows "processInputs plat (c1 @ (k, p) # c2) =
           (fst (processInputs plat c1), Threw e, snd (snd (processInputs plat c1)) @ (k, p) # c2)"
proof -
  obtain e1 r1 d1 where one: "processInputs plat c1 = (e1, r1, d1)"
    by (cases "processInputs plat c1")
  from assms(3) one have r1: "r1 = Returned ()" by simp
  from assms(2) have "fst (verifyProfile p) \<noteq> Returned ()" by simp
  from verifyProfile_throws_unchanged [OF this] assms(2) have "verifyProfile p = (Threw e, p)"
    by (simp add: prod_eq_iff)
  from processInputs_invalid [OF assms(1) this, of plat k c2]
  have two: "processInputs plat ((k, p) # c2) = ([], Threw e, (k, p) # c2)" .
  show ?thesis unfolding processInputs_append [of plat c1 "(k, p) # c2"] one two r1 by simp
qed

lemma handleSwagger_parser_throws:
  "parse_if_string plat doc = Returned j \<Longrightarrow> Parser_parse plat j = Threw e \<Longrightarrow>
     handleSwagger plat doc p k = ([NewParser j], Threw e)"
  by (simp add: handleSwagger_def)

lemma handleSwagger_require_throws:
  "parse_if_string plat doc = Returned j \<Longrightarrow> Parser_parse plat j = Returned d \<Longrightarrow>
   debug p = Some dbg \<Longrightarrow> require plat (generator_module plat p) = Threw e \<Longrightarrow>
     snd (handleSwagger plat doc p k) = Threw e"
  by (simp add: handleSwagger_def Let_def)

lemma run_generator_generate_throws:
  "validateProfile pkg = None \<Longrightarrow> generate pkg d p = (Threw e, p2) \<Longrightarrow>
     run_generator plat pkg d p k = ([GenerateCall d p], Threw e)"
  by (simp add: run_generator_def call_validateProfile_def)

lemma command_exports_catch:
  "getConfig plat = Returned cfg \<Longrightarrow> processInputs plat cfg = (evs, Threw ex, cfg') \<Longrightarrow>
     command_exports plat = evs @ catch_ex ex"
  by (simp add: command_exports_def del: processInputs.simps)

text \<open>
  C1, as the code has it: what the command does with a failure. A failed read, of a file
  or of a URL, is logged inside the profile's callback with the file or URL and the
  error value, and a document that does not parse is logged there with the profile's
  key; in both cases the callback returns. Whenever the callback of a request returns,
  the callbacks that run for the other requests are those that run without it, in
  whatever order the requests complete; and a profile that passes validation adds its
  own request and leaves the requests of the other profiles as they are without it. A
  profile that fails validation ends the loop: the events are those of the profiles
  before it, the profiles after it are not processed, and the exception reaches the
  one \<open>catch\<close> block of the command. An exception from the parser, from \<open>require\<close>,
  from the hook or from \<open>generate\<close> is the result of \<open>handleSwagger\<close> and so of the
  callback, which hands the document to \<open>handleSwagger\<close> and does nothing else:
  nothing in the module catches it, the process ends, and the callbacks of the requests
  that complete later do not run.
\<close>

theorem failure_handling:
  "readFile_callback (plat :: ('j, 'd) platform) (Inl err) p k =
     ([CliError (''Cannot read swagger file '' @ squote (interpolate (file p)) @ ''.''),
       CliErrorVal err], Returned ()) \<and>
   needle_callback plat (Inl err) p k =
     ([CliError (''Cannot read swagger URL '' @ squote (interpolate (url p)) @ ''.''),
       CliErrorVal err], Returned ()) \<and>
   (JSON_parse plat s = Threw e \<longrightarrow>
      (\<exists>details. handleSwagger plat (Text s) p k =
         (CliError (''Invalid swagger source for profile '' @ squote k @ ''.'') # details,
          Returned ()))) \<and>
   readFile_callback plat (Inr s) p k = handleSwagger plat (Text s) p k \<and>
   needle_callback plat (Inr body) p k = handleSwagger plat body p k \<and>
   (callback plat req = Some (k, es, Returned ()) \<longrightarrow>
      callbacks plat (xs @ req # ys) =
        callbacks plat xs @
        (if completed (callbacks plat xs) then (k, es, Returned ()) # callbacks plat ys else []) \<and>
      callbacks plat (xs @ ys) =
        callbacks plat xs @ (if completed (callbacks plat xs) then callbacks plat ys else [])) \<and>
   (callback plat req = Some (k, es, Threw e) \<longrightarrow>
      callbacks plat (xs @ req # ys) =
        callbacks plat xs @ (if completed (callbacks plat xs) then [(k, es, Threw e)] else [])) \<and>
   (\<not> skip p \<and> fst (verifyProfile p) = Returned () \<and>
    fst (snd (processInputs plat c1)) = Returned () \<longrightarrow>
      fst (processInputs plat (c1 @ (k, p) # c2)) =
        fst (processInputs plat c1) @ dispatch plat k (snd (verifyProfile p)) @
        fst (processInputs plat c2) \<and>
      fst (processInputs plat (c1 @ c2)) =
        fst (processInputs plat c1) @ fst (processInputs plat c2)) \<and>
   (\<not> skip p \<and> fst (verifyProfile p) = Threw e \<and>
    fst (snd (processInputs plat c1)) = Returned () \<longrightarrow>
      processInputs plat (c1 @ (k, p) # c2) =
        (fst (processInputs plat c1), Threw e, snd (snd (processInputs plat c1)) @ (k, p) # c2)) \<and>
   (getConfig plat = Returned cfg \<and> processInputs plat cfg = (evs, Threw ex, cfg') \<longrightarrow>
      command_exports plat = evs @ catch_ex ex) \<and>
   (parse_if_string plat doc = Returned j \<and> Parser_parse plat j = Threw e \<longrightarrow>
      handleSwagger plat doc p k = ([NewParser j], Threw e)) \<and>
   (parse_if_string plat doc = Returned j \<and> Parser_parse plat j = Returned d \<and>
    debug p = Some dbg \<and> require plat (generator_module plat p) = Threw e \<longrightarrow>
      snd (handleSwagger plat doc p k) = Threw e) \<and>
   (parse_if_string plat doc = Returned j \<and> Parser_parse plat j = Returned d \<and>
    debug p = Some dbg \<and> require plat (generator_module plat p) = Returned pkg \<longrightarrow>
      snd (handleSwagger plat doc p k) = snd (run_generator plat pkg d p k)) \<and>
   (validateProfile pkg = Some hook \<and> hook p = (Threw e, p') \<longrightarrow>
      snd (run_generator plat pkg d p k) = Threw e) \<and>
   (validateProfile pkg = None \<and> generate pkg d p = (Threw e, p2) \<longrightarrow>
      snd (run_generator plat pkg d p k) = Threw e) \<and>
   (validateProfile pkg = Some hook \<and> hook p = (Returned (), p1) \<and>
    generate pkg d p1 = (Threw e, p2) \<longrightarrow>
      snd (run_generator plat pkg d p k) = Threw e)"
proof (intro conjI impI)
  show "readFile_callback plat (Inl err) p k =
     ([CliError (''Cannot read swagger file '' @ squote (interpolate (file p)) @ ''.''),
       CliErrorVal err], Returned ())"
    by (simp add: readFile_callback_def)
next
  show "needle_callback plat (Inl err) p k =
     ([CliError (''Cannot read swagger URL '' @ squote (interpolate (url p)) @ ''.''),
       CliErrorVal err], Returned ())"
    by (simp add: needle_callback_def)
next
  assume a: "JSON_parse plat s = Threw e"
  from catch_parse_shape [of e k] obtain details :: "('j, 'd) event list" where
    "catch_parse e k = CliError (''Invalid swagger source for profile '' @ squote k @ ''.'') # details"
    by (elim exE conjE)
  with handleSwagger_parse_failure [OF a, of p k]
  have "handleSwagger plat (Text s) p k =
         (CliError (''Invalid swagger source for profile '' @ squote k @ ''.'') # details,
          Returned ())" by simp
  then show "\<exists>details. handleSwagger plat (Text s) p k =
         (CliError (''Invalid swagger source for profile '' @ squote k @ ''.'') # details,
          Returned ())" by (rule exI)
next
  show "readFile_callback plat (Inr s) p k = handleSwagger plat (Text s) p k"
    by (simp add: readFile_callback_def)
next
  show "needle_callback plat (Inr body) p k = handleSwagger plat body p k"
    by (simp add: needle_callback_def)
next
  assume a: "callback plat req = Some (k, es, Returned ())"
  from callbacks_with_returning [OF a]
  show "callbacks plat (xs @ req # ys) =
        callbacks plat xs @
        (if completed (callbacks plat xs) then (k, es, Returned ()) # callbacks plat ys else [])" .
next
  show "callbacks plat (xs @ ys) =
        callbacks plat xs @ (if completed (callbacks plat xs) then callbacks plat ys else [])"
    by (rule callbacks_append)
next
  assume a: "callback plat req = Some (k, es, Threw e)"
  from callbacks_with_throwing [OF a]
  show "callbacks plat (xs @ req # ys) =
        callbacks plat xs @ (if completed (callbacks plat xs) then [(k, es, Threw e)] else [])" .
next
  assume "\<not> skip p \<and> fst (verifyProfile p) = Returned () \<and>
    fst (snd (processInputs plat c1)) = Returned ()"
  then have a: "\<not> skip p" "fst (verifyProfile p) = Returned ()"
    "fst (snd (processInputs plat c1)) = Returned ()" by simp_all
  from sync_isolated [OF a, THEN conjunct1]
  show "fst (processInputs plat (c1 @ (k, p) # c2)) =
        fst (processInputs plat c1) @ dispatch plat k (snd (verifyProfile p)) @
        fst (processInputs plat c2)" .
next
  assume "\<not> skip p \<and> fst (verifyProfile p) = Returned () \<and>
    fst (snd (processInputs plat c1)) = Returned ()"
  then have a: "\<not> skip p" "fst (verifyProfile p) = Returned ()"
    "fst (snd (processInputs plat c1)) = Returned ()" by simp_all
  from sync_isolated [OF a, THEN conjunct2]
  show "fst (processInputs plat (c1 @ c2)) =
        fst (processInputs plat c1) @ fst (processInputs plat c2)" .
next
  assume "\<not> skip p \<and> fst (verifyProfile p) = Threw e \<and>
    fst (snd (processInputs plat c1)) = Returned ()"
  then have a: "\<not> skip p" "fst (verifyProfile p) = Threw e"
    "fst (snd (processInputs plat c1)) = Returned ()" by simp_all
  from validation_failure_stops_loop [OF a]
  show "processInputs plat (c1 @ (k, p) # c2) =
        (fst (processInputs plat c1), Threw e, snd (snd (processInputs plat c1)) @ (k, p) # c2)" .
next
  assume "getConfig plat = Returned cfg \<and> processInputs plat cfg = (evs, Threw ex, cfg')"
  then have a: "getConfig plat = Returned cfg" "processInputs plat cfg = (evs, Threw ex, cfg')"
    by simp_all
  from command_exports_catch [OF a] show "command_exports plat = evs @ catch_ex ex" .
next
  assume "parse_if_string plat doc = Returned j \<and> Parser_parse plat j = Threw e"
  then have a: "parse_if_string plat doc = Returned j" "Parser_parse plat j = Threw e" by simp_all
  from handleSwagger_parser_throws [OF a] show "handleSwagger plat doc p k = ([NewParser j], Threw e)" .
next
  assume "parse_if_string plat doc = Returned j \<and> Parser_parse plat j = Returned d \<and>
    debug p = Some dbg \<and> require plat (generator_module plat p) = Threw e"
  then have a: "parse_if_string plat doc = Returned j" "Parser_parse plat j = Returned d"
    "debug p = Some dbg" "require plat (generator_module plat p) = Threw e" by simp_all
  from handleSwagger_require_throws [OF a] show "snd (handleSwagger plat doc p k) = Threw e" .
next
  assume "parse_if_string plat doc = Returned j \<and> Parser_parse plat j = Returned d \<and>
    debug p = Some dbg \<and> require plat (generator_module plat p) = Returned pkg"
  then have a: "parse_if_string plat doc = Returned j" "Parser_parse plat j = Returned d"
    "debug p = Some dbg" "require plat (generator_module plat p) = Returned pkg" by simp_all
  from handleSwagger_generator [OF a, of k]
  show "snd (handleSwagger plat doc p k) = snd (run_generator plat pkg d p k)" by simp
next
  assume "validateProfile pkg = Some hook \<and> hook p = (Threw e, p')"
  then have a: "validateProfile pkg = Some hook" "hook p = (Threw e, p')" by simp_all
  from run_generator_hook_fails [OF a, of plat d k]
  show "snd (run_generator plat pkg d p k) = Threw e" by simp
next
  assume "validateProfile pkg = None \<and> generate pkg d p = (Threw e, p2)"
  then have a: "validateProfile pkg = None" "generate pkg d p = (Threw e, p2)" by simp_all
  from run_generator_generate_throws [OF a, of plat k]
  show "snd (run_generator plat pkg d p k) = Threw e" by simp
next
  assume "validateProfile pkg = Some hook \<and> hook p = (Returned (), p1) \<and>
    generate pkg d p1 = (Threw e, p2)"
  then have a: "validateProfile pkg = Some hook" "hook p = (Returned (), p1)"
    "generate pkg d p1 = (Threw e, p2)" by simp_all
  from run_generator_hooked_generate_throws [OF a, of plat k]
  show "snd (run_generator plat pkg d p k) = Threw e" by simp
qed

theorem failure_handling_witness:
  "JSON_parse demo_platform ''{,}'' = Threw (SyntaxError (Some 1) ''Unexpected token ,'') \<and>
   (\<exists>details. handleSwagger demo_platform (Text ''{,}'') validated_petstore ''pets'' =
      (CliError (''Invalid swagger source for profile '' @ squote ''pets'' @ ''.'') # details,
       Returned ())) \<and>
   callback demo_platform (FsReadFile ''/work/ghost.json'' ghost_profile ''ghost'') =
     Some (''ghost'',
           [CliError (''Cannot read swagger file '' @ squote ''ghost.json'' @ ''.''),
            CliErrorVal (Error ''ENOENT'')], Returned ()) \<and>
   callbacks demo_platform
       (FsReadFile ''/work/ghost.json'' ghost_profile ''ghost'' #
        [FsReadFile ''/work/petstore.json'' validated_petstore ''pets'']) =
     (''ghost'',
      [CliError (''Cannot read swagger file '' @ squote ''ghost.json'' @ ''.''),
       CliErrorVal (Error ''ENOENT'')], Returned ()) #
     callbacks demo_platform [FsReadFile ''/work/petstore.json'' validated_petstore ''pets''] \<and>
   (\<exists>es. callback demo_platform
            (FsReadFile ''/work/petstore.json'' missing_generator_profile ''pets'') =
          Some (''pets'', es, Threw (Error ''Cannot find module'')) \<and>
        callbacks demo_platform
            (FsReadFile ''/work/petstore.json'' missing_generator_profile ''pets'' #
             [FsReadFile ''/work/petstore.json'' validated_petstore ''other'']) =
          [(''pets'', es, Threw (Error ''Cannot find module''))]) \<and>
   \<not> skip both_profile \<and> fst (verifyProfile both_profile) = Returned () \<and>
   fst (snd (processInputs demo_platform [(''pets'', petstore_profile)])) = Returned () \<and>
   fst (processInputs demo_platform ([(''pets'', petstore_profile)] @ (''both'', both_profile) # [])) =
     fst (processInputs demo_platform [(''pets'', petstore_profile)]) @
     dispatch demo_platform ''both'' (snd (verifyProfile both_profile)) @
     fst (processInputs demo_platform []) \<and>
   \<not> skip empty_profile \<and>
   fst (verifyProfile empty_profile) = Threw (ReferenceError ''profileKey is not defined'') \<and>
   processInputs demo_platform
       ([(''pets'', petstore_profile)] @ (''api'', empty_profile) # [(''both'', both_profile)]) =
     (fst (processInputs demo_platform [(''pets'', petstore_profile)]),
      Threw (ReferenceError ''profileKey is not defined''),
      snd (snd (processInputs demo_platform [(''pets'', petstore_profile)])) @
        (''api'', empty_profile) # [(''both'', both_profile)]) \<and>
   command_exports (configured api_then_pets) =
     [] @ catch_ex (ReferenceError ''profileKey is not defined'') \<and>
   handleSwagger demo_platform (Structured ''[]'') validated_petstore ''pets'' =
     ([NewParser ''[]''], Threw (Error ''not an API description'')) \<and>
   snd (handleSwagger demo_platform (Text ''{}'') missing_generator_profile ''pets'') =
     Threw (Error ''Cannot find module'') \<and>
   snd (handleSwagger demo_platform (Text ''{}'') validated_petstore ''pets'') =
     snd (run_generator demo_platform plain_pkg ''{}'' validated_petstore ''pets'') \<and>
   snd (run_generator demo_platform strict_pkg ''{}'' validated_petstore ''pets'') =
     Threw (Error ''unsupported profile'') \<and>
   snd (run_generator demo_platform failing_pkg ''{}'' validated_petstore ''pets'') =
     Threw (Error ''generation failed'') \<and>
   snd (run_generator demo_platform checked_failing_pkg ''{}'' validated_petstore ''pets'') =
     Threw (Error ''generation failed'')"
proof -
  note t = failure_handling [where plat = demo_platform and k = "''pets''"]
  have j: "JSON_parse demo_platform ''{,}'' = Threw (SyntaxError (Some 1) ''Unexpected token ,'')"
    by (simp add: demo_platform_def)
  from t [where s = "''{,}''" and p = validated_petstore, THEN conjunct2, THEN conjunct2, THEN conjunct1, THEN mp, OF j]
  have c: "\<exists>details. handleSwagger demo_platform (Text ''{,}'') validated_petstore ''pets'' =
      (CliError (''Invalid swagger source for profile '' @ squote ''pets'' @ ''.'') # details,
       Returned ())"
    .
  have gr: "readFile demo_platform ''/work/ghost.json'' = Inl (Error ''ENOENT'')"
    and pr: "readFile demo_platform ''/work/petstore.json'' = Inr ''{}''"
    by (simp_all add: demo_platform_def)
  have gf: "interpolate (file ghost_profile) = ''ghost.json''"
    by (simp add: ghost_profile_def interpolate_def)
  have cg: "callback demo_platform (FsReadFile ''/work/ghost.json'' ghost_profile ''ghost'') =
     Some (''ghost'',
           [CliError (''Cannot read swagger file '' @ squote ''ghost.json'' @ ''.''),
            CliErrorVal (Error ''ENOENT'')], Returned ())"
    unfolding callback.simps gr
      failure_handling [where plat = demo_platform and err = "Error ''ENOENT''" and p = ghost_profile
        and k = "''ghost''", THEN conjunct1] gf ..
  from failure_handling [where plat = demo_platform and k = "''ghost''"
      and req = "FsReadFile ''/work/ghost.json'' ghost_profile ''ghost''"
      and es = "[CliError (''Cannot read swagger file '' @ squote ''ghost.json'' @ ''.''),
            CliErrorVal (Error ''ENOENT'')]"
      and xs = "[]" and ys = "[FsReadFile ''/work/petstore.json'' validated_petstore ''pets'']",
      THEN conjunct2, THEN conjunct2, THEN conjunct2, THEN conjunct2, THEN conjunct2, THEN conjunct1, THEN mp, OF cg, THEN conjunct1]
  have w6: "callbacks demo_platform
       (FsReadFile ''/work/ghost.json'' ghost_profile ''ghost'' #
        [FsReadFile ''/work/petstore.json'' validated_petstore ''pets'']) =
     (''ghost'',
      [CliError (''Cannot read swagger file '' @ squote ''ghost.json'' @ ''.''),
       CliErrorVal (Error ''ENOENT'')], Returned ()) #
     callbacks demo_platform [FsReadFile ''/work/petstore.json'' validated_petstore ''pets'']"
    unfolding append_Nil callbacks.simps(1) completed.simps(1) if_True .
  have d1: "\<not> skip both_profile" by (simp add: both_profile_def)
  have d2: "fst (verifyProfile both_profile) = Returned ()"
    by (simp add: both_profile_def eval_defs)
  have d3: "fst (snd (processInputs demo_platform [(''pets'', petstore_profile)])) = Returned ()"
    by (simp add: petstore_profile_def demo_platform_def eval_defs)
  from failure_handling [where plat = demo_platform and k = "''both''" and p = both_profile
      and ?c1.0 = "[(''pets'', petstore_profile)]" and ?c2.0 = "[]", THEN conjunct2, THEN conjunct2, THEN conjunct2, THEN conjunct2, THEN conjunct2, THEN conjunct2, THEN conjunct2, THEN conjunct1, THEN mp, OF conjI [OF d1 conjI [OF d2 d3]], THEN conjunct1]
  have d: "fst (processInputs demo_platform ([(''pets'', petstore_profile)] @ (''both'', both_profile) # [])) =
     fst (processInputs demo_platform [(''pets'', petstore_profile)]) @
     dispatch demo_platform ''both'' (snd (verifyProfile both_profile)) @
     fst (processInputs demo_platform [])"
    .
  have e1: "\<not> skip empty_profile" by (simp add: empty_profile_def)
  have e2: "fst (verifyProfile empty_profile) = Threw (ReferenceError ''profileKey is not defined'')"
    by (simp add: empty_profile_def verifyProfile_def truthy_def new_Error_def
        profileKey_in_verifyProfile_def)
  from failure_handling [where plat = demo_platform and k = "''api''" and p = empty_profile
      and ?c1.0 = "[(''pets'', petstore_profile)]" and ?c2.0 = "[(''both'', both_profile)]"
      and e = "ReferenceError ''profileKey is not defined''", THEN conjunct2, THEN conjunct2, THEN conjunct2, THEN conjunct2, THEN conjunct2, THEN conjunct2, THEN conjunct2, THEN conjunct2, THEN conjunct1, THEN mp, OF conjI [OF e1 conjI [OF e2 d3]]]
  have e: "processInputs demo_platform
       ([(''pets'', petstore_profile)] @ (''api'', empty_profile) # [(''both'', both_profile)]) =
     (fst (processInputs demo_platform [(''pets'', petstore_profile)]),
      Threw (ReferenceError ''profileKey is not defined''),
      snd (snd (processInputs demo_platform [(''pets'', petstore_profile)])) @
        (''api'', empty_profile) # [(''both'', both_profile)])"
    .
  from failure_handling [where plat = "configured api_then_pets" and cfg = api_then_pets
      and evs = "[]" and ex = "ReferenceError ''profileKey is not defined''" and cfg' = api_then_pets,
      THEN conjunct2, THEN conjunct2, THEN conjunct2, THEN conjunct2, THEN conjunct2, THEN conjunct2, THEN conjunct2, THEN conjunct2, THEN conjunct2, THEN conjunct1, THEN mp, OF conjI [OF getConfig_configured [of api_then_pets] api_then_pets_run [of api_then_pets]]]
  have f: "command_exports (configured api_then_pets) =
     [] @ catch_ex (ReferenceError ''profileKey is not defined'')"
    .
  have g1: "parse_if_string demo_platform (Structured ''[]'') = Returned ''[]''"
    and g2: "Parser_parse demo_platform ''[]'' = Threw (Error ''not an API description'')"
    by (simp_all add: parse_if_string_def demo_platform_def)
  from t [where doc = "Structured ''[]''" and j = "''[]''" and p = validated_petstore
      and e = "Error ''not an API description''", THEN conjunct2, THEN conjunct2, THEN conjunct2, THEN conjunct2, THEN conjunct2, THEN conjunct2, THEN conjunct2, THEN conjunct2, THEN conjunct2, THEN conjunct2, THEN conjunct1, THEN mp, OF conjI [OF g1 g2]]
  have g: "handleSwagger demo_platform (Structured ''[]'') validated_petstore ''pets'' =
     ([NewParser ''[]''], Threw (Error ''not an API description''))"
    .
  have h1: "parse_if_string demo_platform (Text ''{}'') = Returned ''{}''"
    and h2: "Parser_parse demo_platform ''{}'' = Returned ''{}''"
    by (simp_all add: parse_if_string_def demo_platform_def)
  have h3: "debug missing_generator_profile = Some empty_debug"
    "debug validated_petstore = Some empty_debug"
    by (simp_all add: missing_generator_profile_def validated_petstore_def)
  have h4: "require demo_platform (generator_module demo_platform missing_generator_profile) =
      Threw (Error ''Cannot find module'')"
    by (simp add: generator_module_def startsWith_dot_def interpolate_def
        missing_generator_profile_def demo_platform_def)
  from t [where doc = "Text ''{}''" and j = "''{}''" and d = "''{}''" and p = missing_generator_profile
      and dbg = empty_debug and e = "Error ''Cannot find module''", THEN conjunct2, THEN conjunct2, THEN conjunct2, THEN conjunct2, THEN conjunct2, THEN conjunct2, THEN conjunct2, THEN conjunct2, THEN conjunct2, THEN conjunct2, THEN conjunct2, THEN conjunct1, THEN mp, OF conjI [OF h1 conjI [OF h2 conjI [OF h3(1) h4]]]]
  have h: "snd (handleSwagger demo_platform (Text ''{}'') missing_generator_profile ''pets'') =
     Threw (Error ''Cannot find module'')"
    .
  obtain es where hs: "handleSwagger demo_platform (Text ''{}'') missing_generator_profile ''pets'' =
      (es, Threw (Error ''Cannot find module''))"
    using h by (cases "handleSwagger demo_platform (Text ''{}'') missing_generator_profile ''pets''") simp
  have cb: "callback demo_platform
            (FsReadFile ''/work/petstore.json'' missing_generator_profile ''pets'') =
          Some (''pets'', es, Threw (Error ''Cannot find module''))"
    unfolding callback.simps pr
      t [where s = "''{}''" and p = missing_generator_profile, THEN conjunct2, THEN conjunct2, THEN conjunct2, THEN conjunct1] hs ..
  from t [where req = "FsReadFile ''/work/petstore.json'' missing_generator_profile ''pets''"
      and es = es and e = "Error ''Cannot find module''" and xs = "[]"
      and ys = "[FsReadFile ''/work/petstore.json'' validated_petstore ''other'']",
      THEN conjunct2, THEN conjunct2, THEN conjunct2, THEN conjunct2, THEN conjunct2, THEN conjunct2, THEN conjunct1, THEN mp, OF cb]
  have w7: "callbacks demo_platform
            (FsReadFile ''/work/petstore.json'' missing_generator_profile ''pets'' #
             [FsReadFile ''/work/petstore.json'' validated_petstore ''other'']) =
          [(''pets'', es, Threw (Error ''Cannot find module''))]"
    unfolding append_Nil callbacks.simps(1) completed.simps(1) if_True .
  from cb w7 have w7': "\<exists>es. callback demo_platform
            (FsReadFile ''/work/petstore.json'' missing_generator_profile ''pets'') =
          Some (''pets'', es, Threw (Error ''Cannot find module'')) \<and>
        callbacks demo_platform
            (FsReadFile ''/work/petstore.json'' missing_generator_profile ''pets'' #
             [FsReadFile ''/work/petstore.json'' validated_petstore ''other'']) =
          [(''pets'', es, Threw (Error ''Cannot find module''))]"
    by (intro exI conjI)
  have i4: "require demo_platform (generator_module demo_platform validated_petstore) = Returned plain_pkg"
    by (simp add: generator_module_def startsWith_dot_def interpolate_def
        validated_petstore_def petstore_profile_def demo_platform_def)
  from t [where doc = "Text ''{}''" and j = "''{}''" and d = "''{}''" and p = validated_petstore
      and dbg = empty_debug and pkg = plain_pkg, THEN conjunct2, THEN conjunct2, THEN conjunct2, THEN conjunct2, THEN conjunct2, THEN conjunct2, THEN conjunct2, THEN conjunct2, THEN conjunct2, THEN conjunct2, THEN conjunct2, THEN conjunct2, THEN conjunct1, THEN mp, OF conjI [OF h1 conjI [OF h2 conjI [OF h3(2) i4]]]]
  have i: "snd (handleSwagger demo_platform (Text ''{}'') validated_petstore ''pets'') =
     snd (run_generator demo_platform plain_pkg ''{}'' validated_petstore ''pets'')"
    .
  have k1: "validateProfile strict_pkg = Some (\<lambda>p. (Threw (Error ''unsupported profile''), p))"
    by (simp add: strict_pkg_def)
  from t [where pkg = strict_pkg and hook = "\<lambda>p. (Threw (Error ''unsupported profile''), p)"
      and p = validated_petstore and p' = validated_petstore and d = "''{}''"
      and e = "Error ''unsupported profile''", THEN conjunct2, THEN conjunct2, THEN conjunct2, THEN conjunct2, THEN conjunct2, THEN conjunct2, THEN conjunct2, THEN conjunct2, THEN conjunct2, THEN conjunct2, THEN conjunct2, THEN conjunct2, THEN conjunct2, THEN conjunct1, THEN mp, OF conjI [OF k1 refl]]
  have k: "snd (run_generator demo_platform strict_pkg ''{}'' validated_petstore ''pets'') =
     Threw (Error ''unsupported profile'')"
    .
  have l1: "validateProfile failing_pkg = None"
    "generate failing_pkg ''{}'' validated_petstore = (Threw (Error ''generation failed''), validated_petstore)"
    by (simp_all add: failing_pkg_def)
  from t [where pkg = failing_pkg and p = validated_petstore and ?p2.0 = validated_petstore
      and d = "''{}''" and e = "Error ''generation failed''", THEN conjunct2, THEN conjunct2, THEN conjunct2, THEN conjunct2, THEN conjunct2, THEN conjunct2, THEN conjunct2, THEN conjunct2, THEN conjunct2, THEN conjunct2, THEN conjunct2, THEN conjunct2, THEN conjunct2, THEN conjunct2, THEN conjunct1, THEN mp, OF conjI [OF l1(1) l1(2)]]
  have l: "snd (run_generator demo_platform failing_pkg ''{}'' validated_petstore ''pets'') =
     Threw (Error ''generation failed'')"
    .
  have m1: "validateProfile checked_failing_pkg = Some (\<lambda>p. (Returned (), p))"
    "generate checked_failing_pkg ''{}'' validated_petstore =
       (Threw (Error ''generation failed''), validated_petstore)"
    by (simp_all add: checked_failing_pkg_def)
  from t [where pkg = checked_failing_pkg and hook = "\<lambda>p. (Returned (), p)"
      and p = validated_petstore and ?p1.0 = validated_petstore and ?p2.0 = validated_petstore
      and d = "''{}''" and e = "Error ''generation failed''", THEN conjunct2, THEN conjunct2, THEN conjunct2, THEN conjunct2, THEN conjunct2, THEN conjunct2, THEN conjunct2, THEN conjunct2, THEN conjunct2, THEN conjunct2, THEN conjunct2, THEN conjunct2, THEN conjunct2, THEN conjunct2, THEN conjunct2, THEN mp,
      OF conjI [OF m1(1) conjI [OF refl m1(2)]]]
  have m: "snd (run_generator demo_platform checked_failing_pkg ''{}'' validated_petstore ''pets'') =
     Threw (Error ''generation failed'')"
    .
  from j c cg w6 w7' d1 d2 d3 d e1 e2 e f g h i k l m show ?thesis by (intro conjI)
qed

text \<open>
  C1 as stated does not hold. With the profile that fails validation first, the command
  logs the exception value alone and issues no request, so no callback runs for the
  profile \<open>pets\<close>; with that profile alone in the configuration, its file is read.
\<close>

theorem sibling_not_processed_counterexample:
  "command_exports (configured api_then_pets) =
     [ConsoleLog (ReferenceError ''profileKey is not defined'')] \<and>
   callbacks (configured api_then_pets) (command_exports (configured api_then_pets)) = [] \<and>
   map fst (callbacks (configured [(''pets'', petstore_profile)])
              (command_exports (configured [(''pets'', petstore_profile)]))) = [''pets'']"
proof -
  have a: "command_exports (configured api_then_pets) =
     [ConsoleLog (ReferenceError ''profileKey is not defined'')]"
    by (simp add: command_exports_def getConfig_configured api_then_pets_run catch_ex_def
        del: processInputs.simps)
  have b: "command_exports (configured [(''pets'', petstore_profile)]) =
     [CliInfo ''[pets] Input swagger file : /work/petstore.json'',
       FsReadFile ''/work/petstore.json'' validated_petstore ''pets'']"
    by (simp add: command_exports_def getConfig_configured pets_alone_run
        del: processInputs.simps)
  obtain es r where cb: "callback (configured [(''pets'', petstore_profile)])
      (FsReadFile ''/work/petstore.json'' validated_petstore ''pets'') = Some (''pets'', es, r)"
    by (cases "readFile_callback (configured [(''pets'', petstore_profile)])
        (readFile (configured [(''pets'', petstore_profile)]) ''/work/petstore.json'')
        validated_petstore ''pets''") simp
  have c: "callbacks (configured api_then_pets) (command_exports (configured api_then_pets)) = []"
    unfolding a by simp
  have d: "map fst (callbacks (configured [(''pets'', petstore_profile)])
              (command_exports (configured [(''pets'', petstore_profile)]))) = [''pets'']"
    unfolding b using cb by (cases r) simp_all
  from a c d show ?thesis by (intro conjI)
qed

end
